theory Spec2Isabelle
  imports Main "HOL-Library.Multiset"
begin

section \<open>Python values and exceptions\<close>

text \<open>
  The dashboard reads three files written by another program and shows them. This theory
  embeds \<^verbatim>\<open>utils/data_loader.py\<close> (the three loaders) and \<^verbatim>\<open>app.py\<close> (the three page
  handlers and the router) as functions over an explicit world: the files on disk, the
  trace of \<^verbatim>\<open>open\<close> calls and the sequence of Streamlit calls made so far.

  A Python float is \<open>Finite m e\<close> (the number \<open>m * 2 ^ e\<close>), an infinity or NaN; the JSON
  decoder of the standard library produces all of them. A \<^verbatim>\<open>dict\<close> is an association list
  in insertion order.
\<close>

datatype pyfloat = Finite int int | PosInf | NegInf | NaN

datatype json =
    JNull
  | JBool bool
  | JInt int
  | JFloat pyfloat
  | JStr string
  | JList "json list"
  | JDict "(string \<times> json) list"

text \<open>
  The exception classes the handlers of the source tell apart. \<open>OtherException msg\<close> is any
  other instance of \<^verbatim>\<open>Exception\<close> (PermissionError, IsADirectoryError, UnicodeDecodeError,
  TypeError, AttributeError, ...) with \<^verbatim>\<open>str(e) = msg\<close>. Exhaustion of the interpreter's
  resources and \<^verbatim>\<open>KeyboardInterrupt\<close> are outside the model.
\<close>

datatype exn = FileNotFoundError | JSONDecodeError | OtherException string

fun str_exn :: "exn \<Rightarrow> string" where
  \<comment> \<open>\<^verbatim>\<open>str(e)\<close>, as the catch-all handlers print it\<close>
  "str_exn (OtherException msg) = msg"
| "str_exn FileNotFoundError = ''No such file or directory''"
| "str_exn JSONDecodeError = ''Expecting value''"

fun float_nonzero :: "pyfloat \<Rightarrow> bool" where
  "float_nonzero (Finite m e) = (m \<noteq> 0)"
| "float_nonzero PosInf = True"
| "float_nonzero NegInf = True"
| "float_nonzero NaN = True"

text \<open>Python's truth value of a decoded JSON value (\<^verbatim>\<open>bool(x)\<close>).\<close>

fun truthy :: "json \<Rightarrow> bool" where
  "truthy JNull = False"
| "truthy (JBool b) = b"
| "truthy (JInt n) = (n \<noteq> 0)"
| "truthy (JFloat f) = float_nonzero f"
| "truthy (JStr s) = (s \<noteq> [])"
| "truthy (JList xs) = (xs \<noteq> [])"
| "truthy (JDict kvs) = (kvs \<noteq> [])"

definition falsy :: "json \<Rightarrow> bool" where
  \<comment> \<open>\<^verbatim>\<open>not x\<close>\<close>
  "falsy x = (\<not> truthy x)"

fun isinstance_dict :: "json \<Rightarrow> bool" where
  "isinstance_dict (JDict kvs) = True"
| "isinstance_dict _ = False"

fun dict_items :: "json \<Rightarrow> (string \<times> json) list" where
  "dict_items (JDict kvs) = kvs"
| "dict_items _ = []"

definition has_key :: "string \<Rightarrow> json \<Rightarrow> bool" where
  \<comment> \<open>\<^verbatim>\<open>k in d\<close> for a dict \<open>d\<close>; the source evaluates it on dicts only.\<close>
  "has_key k d = (map_of (dict_items d) k \<noteq> None)"

definition lacks_key :: "string \<Rightarrow> json \<Rightarrow> bool" where
  \<comment> \<open>\<^verbatim>\<open>k not in d\<close>\<close>
  "lacks_key k d = (map_of (dict_items d) k = None)"

fun py_get :: "json \<Rightarrow> string \<Rightarrow> json \<Rightarrow> exn + json" where
  \<comment> \<open>\<^verbatim>\<open>d.get(k, default)\<close>: only a dict has the method.\<close>
  "py_get (JDict kvs) k dflt = Inr (case map_of kvs k of None \<Rightarrow> dflt | Some v \<Rightarrow> v)"
| "py_get _ k dflt = Inl (OtherException ''AttributeError: no attribute get'')"

fun py_getitem :: "json \<Rightarrow> string \<Rightarrow> exn + json" where
  \<comment> \<open>\<^verbatim>\<open>d[k]\<close> with a string key\<close>
  "py_getitem (JDict kvs) k =
     (case map_of kvs k of None \<Rightarrow> Inl (OtherException (''KeyError: '' @ k)) | Some v \<Rightarrow> Inr v)"
| "py_getitem _ k = Inl (OtherException ''indices must be integers'')"

fun py_len :: "json \<Rightarrow> exn + nat" where
  "py_len (JStr s) = Inr (length s)"
| "py_len (JList xs) = Inr (length xs)"
| "py_len (JDict kvs) = Inr (length kvs)"
| "py_len _ = Inl (OtherException ''object has no len()'')"

section \<open>The world: files, opens, and the Streamlit calls\<close>

text \<open>
  A path names no file, a file that cannot be opened or read as text (the message is the
  exception's), or a file with its text as Python's text layer delivers it (line ends
  already translated to the newline character).
\<close>

datatype disk_file = Absent | Unreadable string | Readable string

text \<open>
  A pandas frame built from records: the column labels and the rows, each row the items of
  its record (a cell the row has no item for is NaN, read as \<open>None\<close>).
\<close>

record dataframe =
  columns :: "string list"
  rows :: "(string \<times> json) list list"

text \<open>
  The Streamlit calls the program makes, each with the arguments it is given. A line chart
  is drawn from the labels of its series and from its rows: the index (a timestamp in
  nanoseconds, \<open>None\<close> for NaT) and one cell per series. The calls that only arrange the page
  (\<^verbatim>\<open>set_page_config\<close>, \<^verbatim>\<open>columns\<close>, the sidebar) are not recorded, and no call raises.
\<close>

datatype ui =
    Title string
  | Subheader string
  | Warning string
  | Error string
  | Info string
  | Metric string json
  | LineChart "string list" "(int option \<times> json option list) list"
  | Dataframe dataframe
  | TextArea string string

record world =
  files :: "string \<Rightarrow> disk_file"
  opened :: "string list"
  shown :: "ui list"

definition emit :: "ui \<Rightarrow> world \<Rightarrow> world" where
  "emit u w = w\<lparr>shown := shown w @ [u]\<rparr>"

definition open_read :: "string \<Rightarrow> world \<Rightarrow> (exn + string) \<times> world" where
  \<comment> \<open>\<^verbatim>\<open>with open(file_path, 'r') as f\<close> and reading \<open>f\<close> to its end\<close>
  "open_read file_path w =
     (case files w file_path of
        Absent \<Rightarrow> Inl FileNotFoundError
      | Unreadable msg \<Rightarrow> Inl (OtherException msg)
      | Readable s \<Rightarrow> Inr s,
      w\<lparr>opened := opened w @ [file_path]\<rparr>)"

text \<open>
  What \<^verbatim>\<open>json.loads\<close> does with a text: it returns the decoded value, raises
  \<^verbatim>\<open>JSONDecodeError\<close> (the text is no JSON), or raises another exception with a message
  (\<^verbatim>\<open>ValueError\<close> on an integer of more than 4300 digits, \<^verbatim>\<open>RecursionError\<close> on deep nesting).
\<close>

datatype decoded = is_Decoded: Decoded json | DecodeError | OtherError string

text \<open>
  What the program takes from its libraries: the JSON decoder, Python's
  \<^verbatim>\<open>format(v, '.2f')\<close>, pandas' conversion of a whole column to timestamps (nanoseconds since
  the epoch, \<open>None\<close> for NaT; a cell is \<open>None\<close> where the record lacks the key), and pandas'
  frame constructor on a value that is not a list of records. None of them is code of this
  repository, so each is a parameter; \<open>Inl msg\<close> is an exception raised with message \<open>msg\<close>.
\<close>

record ext =
  loads :: "string \<Rightarrow> decoded"
  format_2f :: "json \<Rightarrow> string + string"
  to_datetime :: "json option list \<Rightarrow> string + int option list"
  frame_of_other :: "json \<Rightarrow> string + dataframe"

definition json_loads :: "ext \<Rightarrow> string \<Rightarrow> exn + json" where
  "json_loads X s =
     (case loads X s of
        Decoded v \<Rightarrow> Inr v
      | DecodeError \<Rightarrow> Inl JSONDecodeError
      | OtherError msg \<Rightarrow> Inl (OtherException msg))"

definition json_load :: "ext \<Rightarrow> string \<Rightarrow> world \<Rightarrow> (exn + json) \<times> world" where
  \<comment> \<open>\<^verbatim>\<open>with open(file_path, 'r') as f: data = json.load(f)\<close>\<close>
  "json_load X file_path w =
     (case open_read file_path w of
        (Inl e, w') \<Rightarrow> (Inl e, w')
      | (Inr s, w') \<Rightarrow> (json_loads X s, w'))"

section \<open>The loaders (utils/data\_loader.py)\<close>

definition ethics_default :: json where
  "ethics_default = JDict [(''ethical_events'', JList []), (''trend_analysis'', JDict [])]"

definition kg_default :: json where
  "kg_default = JDict [(''nodes'', JList []), (''edges'', JList [])]"

definition load_ethics_db :: "ext \<Rightarrow> string \<Rightarrow> world \<Rightarrow> (exn + json) \<times> world" where
  "load_ethics_db X file_path w =
     (case json_load X file_path w of
        (Inr data, w') \<Rightarrow>
          if \<not> isinstance_dict data \<or> lacks_key ''ethical_events'' data
          then (Inr ethics_default,
                emit (Warning (''Warning: '' @ file_path @
                  '' does not contain the expected 'ethical_events' key or is not a dictionary.'')) w')
          else (Inr data, w')
      | (Inl FileNotFoundError, w') \<Rightarrow>
          (Inr ethics_default,
           emit (Error (''Error: Ethics DB file not found at '' @ file_path @
             ''. Please check the path.'')) w')
      | (Inl JSONDecodeError, w') \<Rightarrow>
          (Inr ethics_default,
           emit (Error (''Error: Could not decode JSON from '' @ file_path @
             ''. The file might be corrupted or empty.'')) w')
      | (Inl (OtherException e), w') \<Rightarrow>
          (Inr ethics_default,
           emit (Error (''An unexpected error occurred while loading '' @ file_path @
             '': '' @ e)) w'))"

definition load_knowledge_graph :: "ext \<Rightarrow> string \<Rightarrow> world \<Rightarrow> (exn + json) \<times> world" where
  "load_knowledge_graph X file_path w =
     (case json_load X file_path w of
        (Inr data, w') \<Rightarrow>
          if \<not> isinstance_dict data \<or> lacks_key ''nodes'' data \<or> lacks_key ''edges'' data
          then (Inr kg_default,
                emit (Warning (''Warning: '' @ file_path @
                  '' does not contain 'nodes' and 'edges' keys or is not a dictionary.'')) w')
          else (Inr data, w')
      | (Inl FileNotFoundError, w') \<Rightarrow>
          (Inr kg_default,
           emit (Error (''Error: Knowledge Graph file not found at '' @ file_path @
             ''. Please check the path.'')) w')
      | (Inl JSONDecodeError, w') \<Rightarrow>
          (Inr kg_default,
           emit (Error (''Error: Could not decode JSON from '' @ file_path @
             ''. The file might be corrupted or empty.'')) w')
      | (Inl (OtherException e), w') \<Rightarrow>
          (Inr kg_default,
           emit (Error (''An unexpected error occurred while loading '' @ file_path @
             '': '' @ e)) w'))"

text \<open>
  Iterating over a text file yields its lines, each with its newline; a last line without
  one is yielded as it is.
\<close>

fun file_lines :: "string \<Rightarrow> string \<Rightarrow> string list" where
  "file_lines cur [] = (if cur = [] then [] else [cur])"
| "file_lines cur (c # cs) =
     (if c = CHR 0x0A then (cur @ [c]) # file_lines [] cs else file_lines (cur @ [c]) cs)"

definition isspace :: "char \<Rightarrow> bool" where
  \<comment> \<open>\<^verbatim>\<open>str.isspace\<close> on the code points below 256\<close>
  "isspace c = (of_char c \<in> {9, 10, 11, 12, 13, 28, 29, 30, 31, 32, 133, 160 :: nat})"

definition blank :: "string \<Rightarrow> bool" where
  \<comment> \<open>\<^verbatim>\<open>line.strip()\<close> is the empty string\<close>
  "blank line = list_all isspace line"

fun digits :: "nat \<Rightarrow> string" where
  \<comment> \<open>\<^verbatim>\<open>str(n)\<close>, as an f-string prints a line number\<close>
  "digits n =
     (if n < 10 then [''0123456789'' ! n]
      else digits (n div 10) @ [''0123456789'' ! (n mod 10)])"

definition line_warning :: "string \<Rightarrow> nat \<Rightarrow> ui" where
  \<comment> \<open>the warning of line 79 of the loader, for one line of the file\<close>
  "line_warning file_path line_number =
     Warning (''Warning: Could not decode JSON from line '' @ digits line_number @
       '' in '' @ file_path @ ''. Skipping line.'')"

text \<open>
  The body of the \<^verbatim>\<open>for line_number, line in enumerate(f, 1)\<close> loop, with the list built so
  far and the world as accumulators. The inner handler catches \<^verbatim>\<open>JSONDecodeError\<close>; any
  other exception leaves the loop, and the list built so far is lost.
\<close>

fun read_entries ::
  "ext \<Rightarrow> string \<Rightarrow> nat \<Rightarrow> string list \<Rightarrow> json list \<Rightarrow> world \<Rightarrow> (exn + json list) \<times> world" where
  "read_entries X file_path line_number [] log_entries w = (Inr log_entries, w)"
| "read_entries X file_path line_number (line # rest) log_entries w =
     (if blank line then read_entries X file_path (Suc line_number) rest log_entries w
      else
        (case json_loads X line of
           Inr v \<Rightarrow> read_entries X file_path (Suc line_number) rest (log_entries @ [v]) w
         | Inl JSONDecodeError \<Rightarrow>
             read_entries X file_path (Suc line_number) rest log_entries
               (emit (line_warning file_path line_number) w)
         | Inl e \<Rightarrow> (Inl e, w)))"

definition load_system_event_log ::
  "ext \<Rightarrow> string \<Rightarrow> world \<Rightarrow> (exn + json list) \<times> world" where
  "load_system_event_log X file_path w =
     (case (case open_read file_path w of
              (Inl e, w') \<Rightarrow> (Inl e, w')
            | (Inr s, w') \<Rightarrow> read_entries X file_path 1 (file_lines [] s) [] w') of
        (Inr log_entries, w') \<Rightarrow> (Inr log_entries, w')
      | (Inl FileNotFoundError, w') \<Rightarrow>
          (Inr [],
           emit (Error (''Error: System Event Log file not found at '' @ file_path @
             ''. Please check the path.'')) w')
      | (Inl e, w') \<Rightarrow>
          (Inr [],
           emit (Error (''An unexpected error occurred while loading '' @ file_path @ '': '' @
             str_exn e)) w'))"

section \<open>pandas, as far as the pages use it\<close>

definition first_seen :: "string list \<Rightarrow> string list" where
  \<comment> \<open>the labels in the order of their first occurrence\<close>
  "first_seen ks = rev (remdups (rev ks))"

definition pd_DataFrame :: "ext \<Rightarrow> json \<Rightarrow> exn + dataframe" where
  \<comment> \<open>\<^verbatim>\<open>pd.DataFrame(data)\<close>: one row per record, the columns are the keys of all records\<close>
  "pd_DataFrame X data =
     (case data of
        JList xs \<Rightarrow>
          if list_all isinstance_dict xs
          then Inr \<lparr>columns = first_seen (concat (map (map fst \<circ> dict_items) xs)),
                    rows = map dict_items xs\<rparr>
          else (case frame_of_other X data of Inl msg \<Rightarrow> Inl (OtherException msg) | Inr df \<Rightarrow> Inr df)
      | _ \<Rightarrow> (case frame_of_other X data of Inl msg \<Rightarrow> Inl (OtherException msg) | Inr df \<Rightarrow> Inr df))"

definition column :: "string \<Rightarrow> dataframe \<Rightarrow> json option list" where
  \<comment> \<open>\<^verbatim>\<open>df[c]\<close>\<close>
  "column c df = map (\<lambda>r. map_of r c) (rows df)"

definition df_tail :: "nat \<Rightarrow> dataframe \<Rightarrow> dataframe" where
  \<comment> \<open>\<^verbatim>\<open>df.tail(n)\<close>\<close>
  "df_tail n df = df\<lparr>rows := drop (length (rows df) - n) (rows df)\<rparr>"

text \<open>
  \<^verbatim>\<open>sort_values(by='timestamp')\<close> on the converted column: ascending, NaT last. Rows with
  equal timestamps keep their order here (pandas leaves their order open).
\<close>

fun stamp_le :: "int option \<Rightarrow> int option \<Rightarrow> bool" where
  "stamp_le _ None = True"
| "stamp_le None (Some b) = False"
| "stamp_le (Some a) (Some b) = (a \<le> b)"

fun insert_row :: "int option \<times> 'a \<Rightarrow> (int option \<times> 'a) list \<Rightarrow> (int option \<times> 'a) list" where
  "insert_row x [] = [x]"
| "insert_row x (y # ys) =
     (if stamp_le (fst x) (fst y) then x # y # ys else y # insert_row x ys)"

definition sort_values :: "(int option \<times> 'a) list \<Rightarrow> (int option \<times> 'a) list" where
  "sort_values xs = foldr insert_row xs []"

section \<open>The pages (app.py)\<close>

definition SOPHIA_ETHICS_DB_PATH :: string where
  "SOPHIA_ETHICS_DB_PATH = ''../Sophia_Alpha2/data/ethics_db.json''"

definition SOPHIA_KG_PATH :: string where
  "SOPHIA_KG_PATH = ''../Sophia_Alpha2/data/knowledge_graph.json''"

definition SOPHIA_SYSTEM_LOG_PATH :: string where
  "SOPHIA_SYSTEM_LOG_PATH = ''../Sophia_Alpha2/data/logs/system_events.log''"

definition NUM_LOG_ENTRIES_DISPLAY :: nat where
  "NUM_LOG_ENTRIES_DISPLAY = 20"

text \<open>
  A page handler returns \<open>Inr ()\<close> or raises; either way the world holds what it has opened
  and shown up to then.
\<close>

definition trend_summary_section :: "ext \<Rightarrow> json \<Rightarrow> world \<Rightarrow> (exn + unit) \<times> world" where
  \<comment> \<open>lines 32 to 40 of \<^verbatim>\<open>ethical_trends_page\<close>\<close>
  "trend_summary_section X trend_summary w =
     (if truthy trend_summary then
        (let w1 = emit (Subheader ''Trend Analysis Summary'') w in
         case py_get trend_summary ''current_trend_direction'' (JStr ''N/A'') of
           Inl e \<Rightarrow> (Inl e, w1)
         | Inr direction \<Rightarrow>
             (let w2 = emit (Metric ''Current Trend Direction'' direction) w1 in
              case py_get trend_summary ''short_term_avg_score_t_weighted'' (JInt 0) of
                Inl e \<Rightarrow> (Inl e, w2)
              | Inr score \<Rightarrow>
                  (case format_2f X score of
                     Inl msg \<Rightarrow> (Inl (OtherException msg), w2)
                   | Inr s \<Rightarrow>
                       (Inr (), emit (Metric ''Short-term Avg Score (Time-Weighted)'' (JStr s)) w2))))
      else (Inr (), emit (Info ''No trend analysis summary available in the data.'') w))"

definition chart_section :: "ext \<Rightarrow> json \<Rightarrow> world \<Rightarrow> world" where
  \<comment> \<open>lines 50 to 77: the \<^verbatim>\<open>try\<close> block and its handler\<close>
  "chart_section X events w =
     (case pd_DataFrame X events of
        Inl e \<Rightarrow>
          emit (Error (''An error occurred while preparing data for the chart: '' @ str_exn e)) w
      | Inr df_ethics \<Rightarrow>
          if ''timestamp'' \<notin> set (columns df_ethics)
          then emit (Error ''Error: 'timestamp' column missing in ethical events data.'') w
          else if ''final_score'' \<notin> set (columns df_ethics)
          then emit (Error ''Error: 'final_score' column missing in ethical events data.'') w
          else
            (case to_datetime X (column ''timestamp'' df_ethics) of
               Inl msg \<Rightarrow>
                 emit (Error (''An error occurred while preparing data for the chart: '' @ msg)) w
             | Inr stamps \<Rightarrow>
                 if length stamps \<noteq> length (rows df_ethics)
                 then emit (Error (''An error occurred while preparing data for the chart: '' @
                        ''Length of values does not match length of index'')) w
                 else
                   (let sorted_rows = sort_values (zip stamps (rows df_ethics));
                        chart_df = map (\<lambda>(t, r). (t, [map_of r ''final_score''])) sorted_rows
                    in emit (LineChart [''final_score''] chart_df)
                         (emit (Subheader ''Ethical Score Over Time'') w))))"

definition no_ethical_events :: "json \<Rightarrow> exn + bool" where
  \<comment> \<open>\<^verbatim>\<open>not ethics_data or not ethics_data.get("ethical_events")\<close>\<close>
  "no_ethical_events ethics_data =
     (if falsy ethics_data then Inr True
      else (case py_get ethics_data ''ethical_events'' JNull of
              Inl e \<Rightarrow> Inl e
            | Inr events \<Rightarrow> Inr (falsy events)))"

definition ethical_trends_page :: "ext \<Rightarrow> world \<Rightarrow> (exn + unit) \<times> world" where
  "ethical_trends_page X w =
     (case load_ethics_db X SOPHIA_ETHICS_DB_PATH (emit (Title ''Ethical Trends Analysis'') w) of
        (Inl e, w1) \<Rightarrow> (Inl e, w1)
      | (Inr ethics_data, w1) \<Rightarrow>
          (case no_ethical_events ethics_data of
             Inl e \<Rightarrow> (Inl e, w1)
           | Inr True \<Rightarrow>
               (Inr (), emit (Warning
                  ''No ethical events data loaded or data is empty. Cannot display trends.'') w1)
           | Inr False \<Rightarrow>
               (case py_get ethics_data ''trend_analysis'' (JDict []) of
                  Inl e \<Rightarrow> (Inl e, w1)
                | Inr trend_summary \<Rightarrow>
                    (case trend_summary_section X trend_summary w1 of
                       (Inl e, w2) \<Rightarrow> (Inl e, w2)
                     | (Inr u, w2) \<Rightarrow>
                         (case py_getitem ethics_data ''ethical_events'' of
                            Inl e \<Rightarrow> (Inl e, w2)
                          | Inr events \<Rightarrow>
                              if falsy events
                              then (Inr (), emit (Info ''No ethical events recorded to display.'') w2)
                              else (Inr (), chart_section X events w2))))))"

definition visualization_placeholder :: "world \<Rightarrow> world" where
  \<comment> \<open>lines 103 to 107\<close>
  "visualization_placeholder w =
     emit (TextArea ''Graph Visualization Placeholder''
       (''Interactive graph visualization and browsing capabilities will be implemented here in a future update. '' @
        ''Libraries like Streamlit Agraph, Pyvis, or Plotly could be used.''))
       (emit (Subheader ''Visualization'') w)"

definition future_enhancements :: "world \<Rightarrow> world" where
  \<comment> \<open>lines 138 to 142\<close>
  "future_enhancements w =
     emit (TextArea ''Filtering and Searching Placeholder''
       (''Future versions of this tool will include capabilities to filter logs by severity (INFO, WARNING, ERROR), '' @
        ''search by keywords, and select date ranges.''))
       (emit (Subheader ''Future Enhancements'') w)"

definition kg_load_failed :: "json \<Rightarrow> bool" where
  \<comment> \<open>\<^verbatim>\<open>not kg_data or ("nodes" not in kg_data and "edges" not in kg_data)\<close>\<close>
  "kg_load_failed kg_data =
     (falsy kg_data \<or> (lacks_key ''nodes'' kg_data \<and> lacks_key ''edges'' kg_data))"

definition kg_count :: "json \<Rightarrow> string \<Rightarrow> exn + nat" where
  \<comment> \<open>\<^verbatim>\<open>len(kg_data.get(k, []))\<close>\<close>
  "kg_count kg_data k =
     (case py_get kg_data k (JList []) of Inl e \<Rightarrow> Inl e | Inr v \<Rightarrow> py_len v)"

definition not_loaded_again :: "ext \<Rightarrow> world \<Rightarrow> (exn + bool) \<times> world" where
  \<comment> \<open>\<^verbatim>\<open>not load_knowledge_graph(SOPHIA_KG_PATH)\<close>, the last operand of the test of line 99\<close>
  "not_loaded_again X w =
     (case load_knowledge_graph X SOPHIA_KG_PATH w of
        (Inl e, w') \<Rightarrow> (Inl e, w')
      | (Inr again, w') \<Rightarrow> (Inr (falsy again), w'))"

definition knowledge_graph_explorer_page :: "ext \<Rightarrow> world \<Rightarrow> (exn + unit) \<times> world" where
  "knowledge_graph_explorer_page X w =
     (case load_knowledge_graph X SOPHIA_KG_PATH (emit (Title ''Knowledge Graph Explorer'') w) of
        (Inl e, w1) \<Rightarrow> (Inl e, w1)
      | (Inr kg_data, w1) \<Rightarrow>
          if kg_load_failed kg_data
          then (Inr (), emit (Warning ''Knowledge graph data could not be loaded or is empty.'') w1)
          else
            (case kg_count kg_data ''nodes'' of
               Inl e \<Rightarrow> (Inl e, w1)
             | Inr num_nodes \<Rightarrow>
                 (case kg_count kg_data ''edges'' of
                    Inl e \<Rightarrow> (Inl e, w1)
                  | Inr num_edges \<Rightarrow>
                      (let w2 = emit (Metric ''Total Edges'' (JInt (int num_edges)))
                                  (emit (Metric ''Total Nodes'' (JInt (int num_nodes)))
                                    (emit (Subheader ''Graph Overview'') w1))
                       in case (if num_nodes = 0 \<and> num_edges = 0
                                then not_loaded_again X w2
                                else (Inr False, w2)) of
                            (Inl e, w3) \<Rightarrow> (Inl e, w3)
                          | (Inr hint, w3) \<Rightarrow>
                              (Inr (),
                               visualization_placeholder
                                 (if hint
                                  then emit (Info
                                    ''Consider checking file paths or content if you expected data.'') w3
                                  else w3))))))"

definition system_event_log_viewer_page :: "ext \<Rightarrow> world \<Rightarrow> (exn + unit) \<times> world" where
  "system_event_log_viewer_page X w =
     (case load_system_event_log X SOPHIA_SYSTEM_LOG_PATH
             (emit (Title ''System Event Log Viewer'') w) of
        (Inl e, w1) \<Rightarrow> (Inl e, w1)
      | (Inr log_entries, w1) \<Rightarrow>
          if log_entries = []
          then (Inr (), emit (Warning ''No system event log data loaded or the log is empty.'') w1)
          else
            (let w2 = emit (Subheader (''Last '' @ digits NUM_LOG_ENTRIES_DISPLAY @
                        '' Log Entries'')) w1
             in case (if length log_entries > 0
                      then (case pd_DataFrame X (JList log_entries) of
                              Inl e \<Rightarrow> (Inl e, w2)
                            | Inr df_logs \<Rightarrow>
                                (Inr (), emit (Dataframe (df_tail NUM_LOG_ENTRIES_DISPLAY df_logs)) w2))
                      else (Inr (),
                            emit (Info ''Log data is not in the expected list format or is empty.'') w2)) of
                  (Inl e, w3) \<Rightarrow> (Inl e, w3)
                | (Inr u, w3) \<Rightarrow> (Inr (), future_enhancements w3)))"

datatype page = Ethical_Trends | Knowledge_Graph_Explorer | System_Event_Log_Viewer

fun page_options :: "page \<Rightarrow> ext \<Rightarrow> world \<Rightarrow> (exn + unit) \<times> world" where
  "page_options Ethical_Trends = ethical_trends_page"
| "page_options Knowledge_Graph_Explorer = knowledge_graph_explorer_page"
| "page_options System_Event_Log_Viewer = system_event_log_viewer_page"

definition main :: "ext \<Rightarrow> page \<Rightarrow> world \<Rightarrow> (exn + unit) \<times> world" where
  \<comment> \<open>one run of the script with \<open>selected_page\<close> chosen in the sidebar\<close>
  "main X selected_page w = page_options selected_page X w"

section \<open>Sample files\<close>

text \<open>
  The inputs the statements below are instantiated at: the four lines the loader module
  writes to \<^verbatim>\<open>dummy_system_events.log\<close> when it is run as a script (the third is no JSON), a
  minimal ethics file without \<^verbatim>\<open>trend_analysis\<close>, one whose summary has neither headline
  key, one whose timestamp is no date, two events out of order, a small knowledge graph, a
  file that is no JSON, a file that cannot be opened, a log of 25 numbered entries, a log
  whose second entry is a number, and a log whose second line is an integer of 5000 digits.
\<close>

definition dummy_log_content :: "string list" where
  "dummy_log_content =
     [''{\"timestamp\": \"2023-01-01T10:00:00Z\", \"event_type\": \"INFO\", \"message\": \"System started\"}'',
      ''{\"timestamp\": \"2023-01-01T10:05:00Z\", \"event_type\": \"WARNING\", \"message\": \"Low disk space\"}'',
      ''This is not a valid JSON line.'',
      ''{\"timestamp\": \"2023-01-01T10:10:00Z\", \"event_type\": \"ERROR\", \"message\": \"Critical failure\"}'']"

definition dummy_system_events_log :: string where
  \<comment> \<open>\<^verbatim>\<open>for entry in dummy_log_content: f.write(entry + "\n")\<close>\<close>
  "dummy_system_events_log = concat (map (\<lambda>entry. entry @ ''\<newline>'') dummy_log_content)"

definition log_record :: "string \<Rightarrow> string \<Rightarrow> string \<Rightarrow> json" where
  "log_record t k m =
     JDict [(''timestamp'', JStr t), (''event_type'', JStr k), (''message'', JStr m)]"

definition ethics_text :: string where
  "ethics_text =
     ''{\"ethical_events\": [{\"timestamp\":\"2023-01-01T12:00:00Z\",\"final_score\":0.8}]}''"

definition ethics_value :: json where
  \<comment> \<open>the float nearest to 0.8 is \<open>3602879701896397 / 2 ^ 52\<close>\<close>
  "ethics_value =
     JDict [(''ethical_events'',
       JList [JDict [(''timestamp'', JStr ''2023-01-01T12:00:00Z''),
                     (''final_score'', JFloat (Finite 3602879701896397 (- 52)))]])]"

definition undated_text :: string where
  "undated_text = ''{\"ethical_events\": [{\"timestamp\": \"not a date\", \"final_score\": 1}]}''"

definition undated_value :: json where
  "undated_value =
     JDict [(''ethical_events'',
       JList [JDict [(''timestamp'', JStr ''not a date''), (''final_score'', JInt 1)]])]"

definition partial_trend_text :: string where
  "partial_trend_text =
     ''{\"ethical_events\": [{\"timestamp\":\"2023-01-01T12:00:00Z\",\"final_score\":0.8}], \"trend_analysis\": {\"long_term_trend\": \"stable\"}}''"

definition partial_trend_value :: json where
  "partial_trend_value =
     JDict [(''ethical_events'',
       JList [JDict [(''timestamp'', JStr ''2023-01-01T12:00:00Z''),
                     (''final_score'', JFloat (Finite 3602879701896397 (- 52)))]]),
            (''trend_analysis'', JDict [(''long_term_trend'', JStr ''stable'')])]"

definition unsorted_events :: "json list" where
  \<comment> \<open>the two events of the module's \<^verbatim>\<open>dummy_ethics_content\<close>, the later one first\<close>
  "unsorted_events =
     [JDict [(''timestamp'', JStr ''2023-01-01T12:05:00Z''),
             (''final_score'', JFloat (Finite 3152519739159347 (- 52))),
             (''description'', JStr ''Event B'')],
      JDict [(''timestamp'', JStr ''2023-01-01T12:00:00Z''),
             (''final_score'', JFloat (Finite 3602879701896397 (- 52))),
             (''description'', JStr ''Event A'')]]"

definition malformed_text :: string where
  \<comment> \<open>the text of the module's last, commented-out test\<close>
  "malformed_text = ''{'key': 'value'' @ [CHR 0x27]"

definition kg_text :: string where
  "kg_text = ''{\"nodes\":[{\"id\":\"n1\"}],\"edges\":[]}''"

definition kg_value :: json where
  "kg_value = JDict [(''nodes'', JList [JDict [(''id'', JStr ''n1'')]]), (''edges'', JList [])]"

definition seq_line :: "nat \<Rightarrow> string" where
  "seq_line i = ''{\"seq\": '' @ digits i @ ''}'' @ ''\<newline>''"

definition seq_value :: "nat \<Rightarrow> json" where
  "seq_value i = JDict [(''seq'', JInt (int i))]"

text \<open>
  The library functions on these inputs, as tables: each entry is what the library
  returns there, and an input outside a table is not used below.
\<close>

definition table_loads :: "(string \<times> json) list \<Rightarrow> string \<Rightarrow> decoded" where
  "table_loads t s = (case map_of t s of Some v \<Rightarrow> Decoded v | None \<Rightarrow> DecodeError)"

definition sample_loads :: "string \<Rightarrow> decoded" where
  "sample_loads =
     table_loads
       [(dummy_log_content ! 0 @ ''\<newline>'',
            log_record ''2023-01-01T10:00:00Z'' ''INFO'' ''System started''),
         (dummy_log_content ! 1 @ ''\<newline>'',
            log_record ''2023-01-01T10:05:00Z'' ''WARNING'' ''Low disk space''),
         (dummy_log_content ! 3 @ ''\<newline>'',
            log_record ''2023-01-01T10:10:00Z'' ''ERROR'' ''Critical failure''),
         (ethics_text, ethics_value),
         (undated_text, undated_value),
         (kg_text, kg_value),
         (partial_trend_text, partial_trend_value)]"

definition seq_loads :: "string \<Rightarrow> decoded" where
  "seq_loads = table_loads (map (\<lambda>i. (seq_line i, seq_value i)) [1 ..< 26])"

definition sample_stamps :: "(string \<times> int) list" where
  "sample_stamps =
     [(''2023-01-01T12:00:00Z'', 1672574400000000000),
      (''2023-01-01T12:05:00Z'', 1672574700000000000)]"

fun sample_stamp :: "json option \<Rightarrow> int option option" where
  "sample_stamp None = Some None"
| "sample_stamp (Some (JStr s)) = map_option Some (map_of sample_stamps s)"
| "sample_stamp (Some v) = None"

definition sample_to_datetime :: "json option list \<Rightarrow> string + int option list" where
  "sample_to_datetime cells =
     (if list_all (\<lambda>c. sample_stamp c \<noteq> None) cells
      then Inr (map (\<lambda>c. the (sample_stamp c)) cells)
      else Inl ''Unknown datetime string format, unable to parse'')"

definition sample_format_2f :: "json \<Rightarrow> string + string" where
  "sample_format_2f v =
     (if v = JInt 0 then Inr ''0.00''
      else Inl ''unsupported format string'')"

definition sample_ext :: ext where
  "sample_ext =
     \<lparr>loads = sample_loads,
      format_2f = sample_format_2f,
      to_datetime = sample_to_datetime,
      frame_of_other = (\<lambda>v. Inl ''DataFrame constructor not properly called!'')\<rparr>"

definition seq_ext :: ext where
  "seq_ext = sample_ext\<lparr>loads := seq_loads\<rparr>"

definition mixed_log_text :: string where
  \<comment> \<open>a record on line 1, the number 5 on line 2: both lines are valid JSON\<close>
  "mixed_log_text = seq_line 1 @ ''5'' @ ''\<newline>''"

definition keys_error :: string where
  "keys_error = CHR 0x27 # ''int' object has no attribute 'keys'' @ [CHR 0x27]"

definition mixed_ext :: ext where
  \<comment> \<open>pandas reads the keys of every element once the first is a record, and an \<^verbatim>\<open>int\<close> has none\<close>
  "mixed_ext =
     \<lparr>loads = table_loads [(seq_line 1, seq_value 1), (''5'' @ ''\<newline>'', JInt 5)],
      format_2f = sample_format_2f,
      to_datetime = sample_to_datetime,
      frame_of_other =
        (\<lambda>v. if v = JList [seq_value 1, JInt 5] then Inl keys_error
             else Inl ''DataFrame constructor not properly called!'')\<rparr>"




definition sample_files :: "string \<Rightarrow> disk_file" where
  "sample_files p =
     (if p = SOPHIA_ETHICS_DB_PATH then Readable ethics_text
      else if p = SOPHIA_SYSTEM_LOG_PATH then Readable dummy_system_events_log
      else if p = ''dummy_kg.json'' then Readable kg_text
      else if p = ''malformed.json'' then Readable malformed_text
      else if p = ''locked.json'' then Unreadable ''[Errno 13] Permission denied''
      else Absent)"

definition sample_world :: world where
  "sample_world = \<lparr>files = sample_files, opened = [], shown = []\<rparr>"

definition partial_trend_world :: world where
  "partial_trend_world =
     \<lparr>files = (\<lambda>p. if p = SOPHIA_ETHICS_DB_PATH then Readable partial_trend_text else Absent),
      opened = [], shown = []\<rparr>"

definition undated_world :: world where
  "undated_world =
     \<lparr>files = (\<lambda>p. if p = SOPHIA_ETHICS_DB_PATH then Readable undated_text else Absent),
      opened = [], shown = []\<rparr>"

definition mixed_log_world :: world where
  "mixed_log_world =
     \<lparr>files = (\<lambda>p. if p = SOPHIA_SYSTEM_LOG_PATH then Readable mixed_log_text else Absent),
      opened = [], shown = []\<rparr>"


definition long_log_world :: world where
  "long_log_world =
     \<lparr>files = (\<lambda>p. if p = SOPHIA_SYSTEM_LOG_PATH
                    then Readable (concat (map seq_line [1 ..< 26])) else Absent),
      opened = [], shown = []\<rparr>"

section \<open>What the loaders return\<close>

lemma json_load_eq:
  "json_load X p w =
     (case files w p of
        Absent \<Rightarrow> Inl FileNotFoundError
      | Unreadable m \<Rightarrow> Inl (OtherException m)
      | Readable s \<Rightarrow> json_loads X s,
      w\<lparr>opened := opened w @ [p]\<rparr>)"
  by (simp add: json_load_def open_read_def split: disk_file.splits)

lemma fst_load_ethics_db:
  "fst (load_ethics_db X p w) =
     Inr (case files w p of
            Absent \<Rightarrow> ethics_default
          | Unreadable m \<Rightarrow> ethics_default
          | Readable s \<Rightarrow>
              (case loads X s of
                 Decoded d \<Rightarrow>
                   if isinstance_dict d \<and> has_key ''ethical_events'' d then d else ethics_default
               | DecodeError \<Rightarrow> ethics_default
               | OtherError m \<Rightarrow> ethics_default))"
  by (simp add: load_ethics_db_def json_load_eq json_loads_def has_key_def lacks_key_def
           split: disk_file.splits decoded.splits)

lemma fst_load_knowledge_graph:
  "fst (load_knowledge_graph X p w) =
     Inr (case files w p of
            Absent \<Rightarrow> kg_default
          | Unreadable m \<Rightarrow> kg_default
          | Readable s \<Rightarrow>
              (case loads X s of
                 Decoded d \<Rightarrow>
                   if isinstance_dict d \<and> has_key ''nodes'' d \<and> has_key ''edges'' d
                   then d else kg_default
               | DecodeError \<Rightarrow> kg_default
               | OtherError m \<Rightarrow> kg_default))"
  by (simp add: load_knowledge_graph_def json_load_eq json_loads_def has_key_def lacks_key_def
           split: disk_file.splits decoded.splits)

lemma files_emit [simp]: "files (emit u w) = files w"
  and opened_emit [simp]: "opened (emit u w) = opened w"
  and shown_emit [simp]: "shown (emit u w) = shown w @ [u]"
  by (simp_all add: emit_def)

lemma load_ethics_db_world:
  "files (snd (load_ethics_db X p w)) = files w \<and>
   opened (snd (load_ethics_db X p w)) = opened w @ [p]"
  by (simp add: load_ethics_db_def json_load_eq json_loads_def
           split: disk_file.splits decoded.splits)

lemma load_knowledge_graph_world:
  "files (snd (load_knowledge_graph X p w)) = files w \<and>
   opened (snd (load_knowledge_graph X p w)) = opened w @ [p]"
  by (simp add: load_knowledge_graph_def json_load_eq json_loads_def
           split: disk_file.splits decoded.splits)

lemma world_read_entries:
  "files (snd (read_entries X p n ls acc w)) = files w \<and>
   opened (snd (read_entries X p n ls acc w)) = opened w"
  by (induction ls arbitrary: n acc w) (auto simp: json_loads_def split: decoded.splits)

lemma read_entries_eq:
  "list_all (\<lambda>l. blank l \<or> (case loads X l of OtherError m \<Rightarrow> False | _ \<Rightarrow> True)) ls \<Longrightarrow>
   read_entries X p n ls acc w =
     (Inr (acc @ List.map_filter (\<lambda>l. case loads X l of Decoded v \<Rightarrow> Some v | _ \<Rightarrow> None)
                   (filter (\<lambda>l. \<not> blank l) ls)),
      w\<lparr>shown := shown w @
          map (\<lambda>(i, l). line_warning p i)
            (filter (\<lambda>(i, l). \<not> blank l \<and> loads X l = DecodeError) (enumerate n ls))\<rparr>)"
proof (induction ls arbitrary: n acc w)
  case Nil
  then show ?case by (simp add: List.map_filter_simps)
next
  case (Cons l ls)
  then show ?case
    by (simp add: json_loads_def List.map_filter_simps emit_def split: decoded.splits)
qed

lemma read_entries_aborts:
  "\<not> list_all (\<lambda>l. blank l \<or> (case loads X l of OtherError m \<Rightarrow> False | _ \<Rightarrow> True)) ls \<Longrightarrow>
   \<exists>m. fst (read_entries X p n ls acc w) = Inl (OtherException m)"
proof (induction ls arbitrary: n acc w)
  case Nil
  then show ?case by simp
next
  case (Cons l ls)
  then show ?case
    by (auto simp: json_loads_def split: decoded.splits)
qed

lemma load_system_event_log_eq:
  assumes "files w p = Readable s"
    and "list_all (\<lambda>l. blank l \<or> (case loads X l of OtherError m \<Rightarrow> False | _ \<Rightarrow> True))
           (file_lines [] s)"
  shows "load_system_event_log X p w =
          (Inr (List.map_filter (\<lambda>l. case loads X l of Decoded v \<Rightarrow> Some v | _ \<Rightarrow> None)
                  (filter (\<lambda>l. \<not> blank l) (file_lines [] s))),
           w\<lparr>opened := opened w @ [p],
             shown := shown w @
               map (\<lambda>(i, l). line_warning p i)
                 (filter (\<lambda>(i, l). \<not> blank l \<and> loads X l = DecodeError)
                    (enumerate 1 (file_lines [] s)))\<rparr>)"
  using assms
  by (simp add: load_system_event_log_def open_read_def read_entries_eq)

lemma fst_load_system_event_log:
  "fst (load_system_event_log X p w) =
     Inr (case files w p of
            Absent \<Rightarrow> []
          | Unreadable m \<Rightarrow> []
          | Readable s \<Rightarrow>
              if list_all (\<lambda>l. blank l \<or> (case loads X l of OtherError m \<Rightarrow> False | _ \<Rightarrow> True))
                   (file_lines [] s)
              then List.map_filter (\<lambda>l. case loads X l of Decoded v \<Rightarrow> Some v | _ \<Rightarrow> None)
                     (filter (\<lambda>l. \<not> blank l) (file_lines [] s))
              else [])"
proof (cases "files w p")
  case Absent
  then show ?thesis
    by (simp add: load_system_event_log_def open_read_def)
next
  case (Unreadable m)
  then show ?thesis
    by (simp add: load_system_event_log_def open_read_def)
next
  case (Readable s)
  show ?thesis
  proof (cases "list_all (\<lambda>l. blank l \<or> (case loads X l of OtherError m \<Rightarrow> False | _ \<Rightarrow> True))
                  (file_lines [] s)")
    case True
    with Readable show ?thesis
      by (simp add: load_system_event_log_eq)
  next
    case False
    from read_entries_aborts [OF False]
    obtain m where "fst (read_entries X p 1 (file_lines [] s) [] (w\<lparr>opened := opened w @ [p]\<rparr>)) =
                      Inl (OtherException m)"
      by blast
    with Readable False show ?thesis
      by (simp add: load_system_event_log_def open_read_def case_prod_beta)
  qed
qed

lemma load_system_event_log_world:
  "files (snd (load_system_event_log X p w)) = files w \<and>
   opened (snd (load_system_event_log X p w)) = opened w @ [p]"
  by (simp add: load_system_event_log_def open_read_def case_prod_beta world_read_entries
           split: disk_file.splits sum.splits exn.splits)

lemma load_system_event_log_fst_indep:
  "files w' = files w \<Longrightarrow> fst (load_system_event_log X p w') = fst (load_system_event_log X p w)"
  by (simp only: fst_load_system_event_log)

section \<open>Facts about the sample files\<close>

lemma sample_world_files:
  "files sample_world SOPHIA_ETHICS_DB_PATH = Readable ethics_text"
  "files sample_world SOPHIA_SYSTEM_LOG_PATH = Readable dummy_system_events_log"
  "files sample_world SOPHIA_KG_PATH = Absent"
  "files sample_world ''dummy_kg.json'' = Readable kg_text"
  "files sample_world ''malformed.json'' = Readable malformed_text"
  "files sample_world ''locked.json'' = Unreadable ''[Errno 13] Permission denied''"
  "files sample_world ''non_existent_ethics.json'' = Absent"
  "opened sample_world = []"
  "shown sample_world = []"
  by (simp_all add: sample_world_def sample_files_def SOPHIA_ETHICS_DB_PATH_def
        SOPHIA_KG_PATH_def SOPHIA_SYSTEM_LOG_PATH_def)

lemma sample_ext_loads:
  "loads sample_ext ethics_text = Decoded ethics_value"
  "loads sample_ext undated_text = Decoded undated_value"
  "loads sample_ext kg_text = Decoded kg_value"
  "loads sample_ext dummy_system_events_log = DecodeError"
  "loads sample_ext malformed_text = DecodeError"
  "loads sample_ext (dummy_log_content ! 0 @ ''\<newline>'') =
     Decoded (log_record ''2023-01-01T10:00:00Z'' ''INFO'' ''System started'')"
  "loads sample_ext (dummy_log_content ! 1 @ ''\<newline>'') =
     Decoded (log_record ''2023-01-01T10:05:00Z'' ''WARNING'' ''Low disk space'')"
  "loads sample_ext (dummy_log_content ! 2 @ ''\<newline>'') = DecodeError"
  "loads sample_ext (dummy_log_content ! 3 @ ''\<newline>'') =
     Decoded (log_record ''2023-01-01T10:10:00Z'' ''ERROR'' ''Critical failure'')"
  by (simp_all add: sample_ext_def sample_loads_def table_loads_def dummy_system_events_log_def
        dummy_log_content_def ethics_text_def undated_text_def kg_text_def
        partial_trend_text_def malformed_text_def)

lemma sample_values:
  "isinstance_dict ethics_value" "has_key ''ethical_events'' ethics_value"
  "lacks_key ''trend_analysis'' ethics_value" "lacks_key ''nodes'' ethics_value"
  "isinstance_dict undated_value" "has_key ''ethical_events'' undated_value"
  "lacks_key ''trend_analysis'' undated_value"
  "isinstance_dict kg_value" "has_key ''nodes'' kg_value" "has_key ''edges'' kg_value"
  "lacks_key ''ethical_events'' kg_value"
  "\<not> has_key ''ethical_events'' kg_value" "\<not> has_key ''nodes'' ethics_value"
  "\<not> has_key ''trend_analysis'' ethics_value"
  by (simp_all add: ethics_value_def undated_value_def kg_value_def has_key_def lacks_key_def)




lemma fst_load_ethics_db_indep:
  "files w' = files w \<Longrightarrow> fst (load_ethics_db X p w') = fst (load_ethics_db X p w)"
  by (simp only: fst_load_ethics_db)

lemma fst_load_knowledge_graph_indep:
  "files w' = files w \<Longrightarrow> fst (load_knowledge_graph X p w') = fst (load_knowledge_graph X p w)"
  by (simp only: fst_load_knowledge_graph)




section \<open>The ethics loader\<close>

text \<open>
  C2, as the claim states it, fails: a file that exists but cannot be opened (permission
  denied) is none of the four listed cases, there is no parsed mapping to return, and the
  loader's catch-all handler returns the default.
\<close>

theorem load_ethics_db_unreadable:
  "files sample_world ''locked.json'' = Unreadable ''[Errno 13] Permission denied'' \<and>
   fst (load_ethics_db sample_ext ''locked.json'' sample_world) = Inr ethics_default"
  by (simp add: fst_load_ethics_db sample_world_files)

text \<open>
  C2, amended. \<^verbatim>\<open>load_ethics_db\<close> returns the default
  \<open>{ethical_events: [], trend_analysis: {}}\<close> when the file does not exist, cannot be opened
  or read, holds no valid JSON, makes the decoder raise any other exception, or parses to a
  value that is not a mapping or lacks the key \<open>ethical_events\<close>; in every other case it
  returns the parsed mapping unchanged, with \<open>trend_analysis\<close> and every other key as they
  are, also when \<open>trend_analysis\<close> is absent.
\<close>

theorem load_ethics_db_result:
  "fst (load_ethics_db X p w) =
     Inr (case files w p of
            Absent \<Rightarrow> ethics_default
          | Unreadable m \<Rightarrow> ethics_default
          | Readable s \<Rightarrow>
              (case loads X s of
                 Decoded d \<Rightarrow>
                   if isinstance_dict d \<and> has_key ''ethical_events'' d then d else ethics_default
               | DecodeError \<Rightarrow> ethics_default
               | OtherError m \<Rightarrow> ethics_default))"
  by (rule fst_load_ethics_db)

theorem load_ethics_db_result_witness:
  "fst (load_ethics_db sample_ext SOPHIA_ETHICS_DB_PATH sample_world) = Inr ethics_value \<and>
   lacks_key ''trend_analysis'' ethics_value \<and>
   fst (load_ethics_db sample_ext ''locked.json'' sample_world) = Inr ethics_default \<and>
   fst (load_ethics_db sample_ext ''dummy_kg.json'' sample_world) = Inr ethics_default"
  using load_ethics_db_result [of sample_ext SOPHIA_ETHICS_DB_PATH sample_world]
    load_ethics_db_result [of sample_ext "''locked.json''" sample_world]
    load_ethics_db_result [of sample_ext "''dummy_kg.json''" sample_world]
  by (simp add: sample_world_files sample_ext_loads sample_values)

section \<open>The knowledge graph loader\<close>

text \<open>
  C3. \<^verbatim>\<open>load_knowledge_graph\<close> returns the parsed mapping unchanged when the file parses to
  a mapping with both keys \<open>nodes\<close> and \<open>edges\<close>, and the default \<open>{nodes: [], edges: []}\<close>
  in every failure case: no file, a file that cannot be read, invalid JSON or another
  exception of the decoder, a value that is not a mapping, or a mapping without one of the
  keys. On \<open>{"nodes":[{"id":"n1"}],"edges":[]}\<close> it returns one node and no edge.
\<close>

theorem load_knowledge_graph_result:
  "fst (load_knowledge_graph X p w) =
     Inr (case files w p of
            Absent \<Rightarrow> kg_default
          | Unreadable m \<Rightarrow> kg_default
          | Readable s \<Rightarrow>
              (case loads X s of
                 Decoded d \<Rightarrow>
                   if isinstance_dict d \<and> has_key ''nodes'' d \<and> has_key ''edges'' d
                   then d else kg_default
               | DecodeError \<Rightarrow> kg_default
               | OtherError m \<Rightarrow> kg_default))"
  by (rule fst_load_knowledge_graph)

theorem load_knowledge_graph_result_witness:
  "fst (load_knowledge_graph sample_ext ''dummy_kg.json'' sample_world) = Inr kg_value \<and>
   kg_count kg_value ''nodes'' = Inr 1 \<and> kg_count kg_value ''edges'' = Inr 0 \<and>
   fst (load_knowledge_graph sample_ext SOPHIA_KG_PATH sample_world) = Inr kg_default \<and>
   fst (load_knowledge_graph sample_ext SOPHIA_ETHICS_DB_PATH sample_world) = Inr kg_default"
proof -
  have "kg_count kg_value ''nodes'' = Inr 1 \<and> kg_count kg_value ''edges'' = Inr 0"
    by (simp add: kg_value_def kg_count_def)
  then show ?thesis
    using load_knowledge_graph_result [of sample_ext "''dummy_kg.json''" sample_world]
      load_knowledge_graph_result [of sample_ext SOPHIA_KG_PATH sample_world]
      load_knowledge_graph_result [of sample_ext SOPHIA_ETHICS_DB_PATH sample_world]
    by (simp add: sample_world_files sample_ext_loads sample_values)
qed

section \<open>The log loader\<close>








section \<open>Loading twice\<close>

text \<open>
  C9. Each loader, called a second time in the world the first call left, returns the same
  value again, and no call changes a file.
\<close>

theorem loaders_idempotent:
  "fst (load_ethics_db X p (snd (load_ethics_db X p w))) = fst (load_ethics_db X p w) \<and>
   files (snd (load_ethics_db X p w)) = files w \<and>
   fst (load_knowledge_graph X p (snd (load_knowledge_graph X p w))) =
     fst (load_knowledge_graph X p w) \<and>
   files (snd (load_knowledge_graph X p w)) = files w \<and>
   fst (load_system_event_log X p (snd (load_system_event_log X p w))) =
     fst (load_system_event_log X p w) \<and>
   files (snd (load_system_event_log X p w)) = files w"
proof -
  have e: "files (snd (load_ethics_db X p w)) = files w"
    by (simp only: load_ethics_db_world)
  have k: "files (snd (load_knowledge_graph X p w)) = files w"
    by (simp only: load_knowledge_graph_world)
  have l: "files (snd (load_system_event_log X p w)) = files w"
    by (simp only: load_system_event_log_world)
  from e k l fst_load_ethics_db_indep [OF e] fst_load_knowledge_graph_indep [OF k]
    load_system_event_log_fst_indep [OF l]
  show ?thesis by (intro conjI)
qed

theorem loaders_idempotent_witness:
  "fst (load_ethics_db sample_ext SOPHIA_ETHICS_DB_PATH
          (snd (load_ethics_db sample_ext SOPHIA_ETHICS_DB_PATH sample_world))) =
     fst (load_ethics_db sample_ext SOPHIA_ETHICS_DB_PATH sample_world) \<and>
   files (snd (load_ethics_db sample_ext SOPHIA_ETHICS_DB_PATH sample_world))
     SOPHIA_ETHICS_DB_PATH = Readable ethics_text \<and>
   files (snd (load_system_event_log sample_ext SOPHIA_SYSTEM_LOG_PATH sample_world))
     SOPHIA_SYSTEM_LOG_PATH = Readable dummy_system_events_log"
  using loaders_idempotent [of sample_ext SOPHIA_ETHICS_DB_PATH sample_world]
    loaders_idempotent [of sample_ext SOPHIA_SYSTEM_LOG_PATH sample_world]
  by (simp add: sample_world_files)


section \<open>The pages: what they open\<close>

lemma world_visualization_placeholder [simp]:
  "files (visualization_placeholder w) = files w"
  "opened (visualization_placeholder w) = opened w"
  by (simp_all add: visualization_placeholder_def)

lemma world_future_enhancements [simp]:
  "files (future_enhancements w) = files w"
  "opened (future_enhancements w) = opened w"
  by (simp_all add: future_enhancements_def)

lemma world_chart_section [simp]:
  "files (chart_section X events w) = files w"
  "opened (chart_section X events w) = opened w"
  by (simp_all add: chart_section_def Let_def split: sum.splits)

lemma world_trend_summary_section [simp]:
  "files (snd (trend_summary_section X t w)) = files w"
  "opened (snd (trend_summary_section X t w)) = opened w"
  by (simp_all add: trend_summary_section_def Let_def split: sum.splits)

lemma opened_ethical_trends_page:
  "opened (snd (ethical_trends_page X w)) = opened w @ [SOPHIA_ETHICS_DB_PATH]"
proof -
  let ?L = "load_ethics_db X SOPHIA_ETHICS_DB_PATH (emit (Title ''Ethical Trends Analysis'') w)"
  have o: "opened (snd ?L) = opened w @ [SOPHIA_ETHICS_DB_PATH]"
    by (simp add: load_ethics_db_world)
  obtain d where d: "fst ?L = Inr d"
    by (simp add: fst_load_ethics_db)
  show ?thesis
    unfolding ethical_trends_page_def case_prod_beta d
    by (simp add: o split: sum.splits bool.splits)
qed

lemma opened_system_event_log_viewer_page:
  "opened (snd (system_event_log_viewer_page X w)) = opened w @ [SOPHIA_SYSTEM_LOG_PATH]"
proof -
  let ?L = "load_system_event_log X SOPHIA_SYSTEM_LOG_PATH (emit (Title ''System Event Log Viewer'') w)"
  have o: "opened (snd ?L) = opened w @ [SOPHIA_SYSTEM_LOG_PATH]"
    by (simp add: load_system_event_log_world)
  show ?thesis
    unfolding system_event_log_viewer_page_def case_prod_beta
    by (simp add: o Let_def split: sum.splits)
qed


lemma kg_loaded_ok:
  assumes "fst (load_knowledge_graph X p w) = Inr d"
  shows "isinstance_dict d \<and> has_key ''nodes'' d \<and> has_key ''edges'' d \<and> \<not> kg_load_failed d"
proof -
  have k: "isinstance_dict d \<and> has_key ''nodes'' d \<and> has_key ''edges'' d"
    using assms
    by (auto simp: fst_load_knowledge_graph kg_default_def has_key_def
             split: disk_file.splits decoded.splits if_splits)
  then have "truthy d"
    by (cases d) (auto simp: has_key_def)
  with k show ?thesis
    by (simp add: kg_load_failed_def falsy_def has_key_def lacks_key_def)
qed

lemma not_loaded_again_eq:
  "not_loaded_again X w = (Inr False, snd (load_knowledge_graph X SOPHIA_KG_PATH w))"
proof -
  obtain d where d: "fst (load_knowledge_graph X SOPHIA_KG_PATH w) = Inr d"
    by (simp add: fst_load_knowledge_graph)
  from kg_loaded_ok [OF d] have "\<not> falsy d"
    by (simp add: kg_load_failed_def)
  then show ?thesis
    by (simp add: not_loaded_again_def case_prod_beta d)
qed

lemma knowledge_graph_explorer_page_eq:
  assumes "fst (load_knowledge_graph X SOPHIA_KG_PATH w) = Inr d"
  shows "knowledge_graph_explorer_page X w =
     (let w1 = snd (load_knowledge_graph X SOPHIA_KG_PATH
                 (emit (Title ''Knowledge Graph Explorer'') w)) in
      case kg_count d ''nodes'' of
        Inl e \<Rightarrow> (Inl e, w1)
      | Inr num_nodes \<Rightarrow>
          (case kg_count d ''edges'' of
             Inl e \<Rightarrow> (Inl e, w1)
           | Inr num_edges \<Rightarrow>
               (let w2 = emit (Metric ''Total Edges'' (JInt (int num_edges)))
                           (emit (Metric ''Total Nodes'' (JInt (int num_nodes)))
                             (emit (Subheader ''Graph Overview'') w1))
                in (Inr (),
                    visualization_placeholder
                      (if num_nodes = 0 \<and> num_edges = 0
                       then snd (load_knowledge_graph X SOPHIA_KG_PATH w2) else w2)))))"
proof -
  let ?w0 = "emit (Title ''Knowledge Graph Explorer'') w"
  have d: "fst (load_knowledge_graph X SOPHIA_KG_PATH ?w0) = Inr d"
    using assms fst_load_knowledge_graph_indep [of ?w0 w X SOPHIA_KG_PATH] by simp
  have ok: "\<not> kg_load_failed d"
    using kg_loaded_ok [OF d] by simp
  show ?thesis
    unfolding knowledge_graph_explorer_page_def case_prod_beta d
    by (simp add: ok Let_def not_loaded_again_eq split: sum.splits)
qed

lemma opened_knowledge_graph_explorer_page:
  assumes "fst (load_knowledge_graph X SOPHIA_KG_PATH w) = Inr d"
  shows "opened (snd (knowledge_graph_explorer_page X w)) =
     opened w @
       (if kg_count d ''nodes'' = Inr 0 \<and> kg_count d ''edges'' = Inr 0
        then [SOPHIA_KG_PATH, SOPHIA_KG_PATH] else [SOPHIA_KG_PATH])"
  unfolding knowledge_graph_explorer_page_eq [OF assms]
  by (simp add: Let_def load_knowledge_graph_world split: sum.splits)

lemma kg_count_default:
  "kg_count kg_default ''nodes'' = Inr 0" "kg_count kg_default ''edges'' = Inr 0"
  by (simp_all add: kg_count_def kg_default_def)

text \<open>
  C7, as the claim states it, fails on the knowledge graph page: with no file at the graph's
  path, one render calls \<^verbatim>\<open>load_knowledge_graph\<close> twice (the second call is the last operand
  of the test of line 99), so the file is opened twice.
\<close>

theorem kg_page_loads_twice:
  "opened sample_world = [] \<and>
   opened (snd (knowledge_graph_explorer_page sample_ext sample_world)) =
     [SOPHIA_KG_PATH, SOPHIA_KG_PATH]"
proof -
  have d: "fst (load_knowledge_graph sample_ext SOPHIA_KG_PATH sample_world) = Inr kg_default"
    by (simp add: fst_load_knowledge_graph sample_world_files)
  show ?thesis
    by (simp add: opened_knowledge_graph_explorer_page [OF d] kg_count_default sample_world_files)
qed

text \<open>
  C7, amended. A run of the script renders the selected page with that page's handler, and
  every call of a loader opens its file once. A render of the ethics page and
  a render of the log page call their loader exactly once, on every input. A render of the
  knowledge graph page calls \<^verbatim>\<open>load_knowledge_graph\<close> once, and a second time exactly when the
  loaded graph has no nodes and no edges (as the default has, after a failed load).
\<close>

theorem page_load_counts:
  "main X Ethical_Trends w = ethical_trends_page X w \<and>
   main X Knowledge_Graph_Explorer w = knowledge_graph_explorer_page X w \<and>
   main X System_Event_Log_Viewer w = system_event_log_viewer_page X w \<and>
   opened (snd (load_ethics_db X p w)) = opened w @ [p] \<and>
   opened (snd (load_knowledge_graph X p w)) = opened w @ [p] \<and>
   opened (snd (load_system_event_log X p w)) = opened w @ [p] \<and>
   opened (snd (ethical_trends_page X w)) = opened w @ [SOPHIA_ETHICS_DB_PATH] \<and>
   opened (snd (system_event_log_viewer_page X w)) = opened w @ [SOPHIA_SYSTEM_LOG_PATH] \<and>
   (\<exists>d. fst (load_knowledge_graph X SOPHIA_KG_PATH w) = Inr d \<and>
      opened (snd (knowledge_graph_explorer_page X w)) =
        opened w @
          (if kg_count d ''nodes'' = Inr 0 \<and> kg_count d ''edges'' = Inr 0
           then [SOPHIA_KG_PATH, SOPHIA_KG_PATH] else [SOPHIA_KG_PATH]))"
proof -
  obtain d where d: "fst (load_knowledge_graph X SOPHIA_KG_PATH w) = Inr d"
    by (simp add: fst_load_knowledge_graph)
  from opened_knowledge_graph_explorer_page [OF d] d
  have "\<exists>d. fst (load_knowledge_graph X SOPHIA_KG_PATH w) = Inr d \<and>
      opened (snd (knowledge_graph_explorer_page X w)) =
        opened w @
          (if kg_count d ''nodes'' = Inr 0 \<and> kg_count d ''edges'' = Inr 0
           then [SOPHIA_KG_PATH, SOPHIA_KG_PATH] else [SOPHIA_KG_PATH])"
    by blast
  then show ?thesis
    by (simp only: load_ethics_db_world load_knowledge_graph_world load_system_event_log_world
          opened_ethical_trends_page opened_system_event_log_viewer_page simp_thms
          main_def page_options.simps)
qed

theorem page_load_counts_witness:
  "opened (snd (ethical_trends_page sample_ext sample_world)) = [SOPHIA_ETHICS_DB_PATH] \<and>
   opened (snd (system_event_log_viewer_page sample_ext sample_world)) = [SOPHIA_SYSTEM_LOG_PATH] \<and>
   opened (snd (knowledge_graph_explorer_page sample_ext sample_world)) =
     [SOPHIA_KG_PATH, SOPHIA_KG_PATH]"
proof -
  have d: "fst (load_knowledge_graph sample_ext SOPHIA_KG_PATH sample_world) = Inr kg_default"
    by (simp add: fst_load_knowledge_graph sample_world_files)
  show ?thesis
    using page_load_counts [of sample_ext sample_world SOPHIA_KG_PATH] d
    by (simp add: kg_count_default sample_world_files)
qed

section \<open>The knowledge graph page\<close>

lemma shown_load_knowledge_graph:
  "\<exists>us. shown (snd (load_knowledge_graph X p w)) = shown w @ us \<and>
        Warning ''Knowledge graph data could not be loaded or is empty.'' \<notin> set us"
  by (simp add: load_knowledge_graph_def json_load_eq json_loads_def
           split: disk_file.splits decoded.splits)

lemma shown_knowledge_graph_explorer_page:
  "\<exists>us. shown (snd (knowledge_graph_explorer_page X w)) = shown w @ us \<and>
        Warning ''Knowledge graph data could not be loaded or is empty.'' \<notin> set us"
proof -
  let ?W = "Warning ''Knowledge graph data could not be loaded or is empty.''"
  let ?w0 = "emit (Title ''Knowledge Graph Explorer'') w"
  obtain d where d: "fst (load_knowledge_graph X SOPHIA_KG_PATH w) = Inr d"
    by (simp add: fst_load_knowledge_graph)
  obtain us where us: "shown (snd (load_knowledge_graph X SOPHIA_KG_PATH ?w0)) = shown ?w0 @ us"
      "?W \<notin> set us"
    using shown_load_knowledge_graph by blast
  have again: "\<And>w'. \<exists>vs. shown (snd (load_knowledge_graph X SOPHIA_KG_PATH w')) = shown w' @ vs \<and>
        ?W \<notin> set vs"
    by (rule shown_load_knowledge_graph)
  show ?thesis
  proof (cases "kg_count d ''nodes''")
    case (Inl e)
    then show ?thesis
      unfolding knowledge_graph_explorer_page_eq [OF d]
      using us by (simp add: Let_def)
  next
    case nodes: (Inr n)
    show ?thesis
    proof (cases "kg_count d ''edges''")
      case (Inl e)
      then show ?thesis
        unfolding knowledge_graph_explorer_page_eq [OF d]
        using us nodes by (simp add: Let_def)
    next
      case edges: (Inr m)
      let ?w2 = "emit (Metric ''Total Edges'' (JInt (int m)))
                           (emit (Metric ''Total Nodes'' (JInt (int n)))
                             (emit (Subheader ''Graph Overview'')
                               (snd (load_knowledge_graph X SOPHIA_KG_PATH ?w0))))"
      obtain vs where vs: "shown (snd (load_knowledge_graph X SOPHIA_KG_PATH ?w2)) = shown ?w2 @ vs"
        "?W \<notin> set vs"
        using again by blast
      show ?thesis
      proof (cases "n = 0 \<and> m = 0")
        case True
        with vs have "shown (snd (load_knowledge_graph X SOPHIA_KG_PATH
                        (emit (Metric ''Total Edges'' (JInt 0))
                          (emit (Metric ''Total Nodes'' (JInt 0))
                            (emit (Subheader ''Graph Overview'')
                              (snd (load_knowledge_graph X SOPHIA_KG_PATH ?w0))))))) =
              shown w @ Title ''Knowledge Graph Explorer'' # us @
                [Subheader ''Graph Overview'', Metric ''Total Nodes'' (JInt 0),
                 Metric ''Total Edges'' (JInt 0)] @ vs"
          using us by simp
        then show ?thesis
          unfolding knowledge_graph_explorer_page_eq [OF d]
          using us vs nodes edges True
          by (simp add: Let_def visualization_placeholder_def)
      next
        case False
        then have nz: "(n = 0 \<and> m = 0) = False"
          by simp
        show ?thesis
          unfolding knowledge_graph_explorer_page_eq [OF d] Let_def nodes edges sum.case nz if_False
          using us
          by (simp add: visualization_placeholder_def)
      qed
    qed
  qed
qed

text \<open>
  C10. Whatever the file, \<^verbatim>\<open>load_knowledge_graph\<close> returns a mapping that has both keys
  \<open>nodes\<close> and \<open>edges\<close>, so the test of line 85 of the page is false on it, and the page
  never shows the warning of that branch.
\<close>

theorem kg_loader_keys_present:
  "(\<exists>kvs. fst (load_knowledge_graph X p w) = Inr (JDict kvs) \<and>
      has_key ''nodes'' (JDict kvs) \<and> has_key ''edges'' (JDict kvs) \<and>
      \<not> kg_load_failed (JDict kvs)) \<and>
   (\<exists>us. shown (snd (knowledge_graph_explorer_page X w)) = shown w @ us \<and>
      Warning ''Knowledge graph data could not be loaded or is empty.'' \<notin> set us)"
proof -
  obtain d where d: "fst (load_knowledge_graph X p w) = Inr d"
    by (simp add: fst_load_knowledge_graph)
  from kg_loaded_ok [OF d] obtain kvs where "d = JDict kvs"
    by (cases d) simp_all
  with d kg_loaded_ok [OF d] shown_knowledge_graph_explorer_page [of X w]
  show ?thesis by simp
qed

theorem kg_loader_keys_present_witness:
  "fst (load_knowledge_graph sample_ext SOPHIA_KG_PATH sample_world) = Inr kg_default \<and>
   has_key ''nodes'' kg_default \<and> has_key ''edges'' kg_default \<and> \<not> kg_load_failed kg_default \<and>
   fst (load_knowledge_graph sample_ext ''dummy_kg.json'' sample_world) = Inr kg_value \<and>
   has_key ''nodes'' kg_value \<and> has_key ''edges'' kg_value \<and> \<not> kg_load_failed kg_value"
proof -
  have a: "fst (load_knowledge_graph sample_ext SOPHIA_KG_PATH sample_world) = Inr kg_default"
    by (simp add: fst_load_knowledge_graph sample_world_files)
  have b: "fst (load_knowledge_graph sample_ext ''dummy_kg.json'' sample_world) = Inr kg_value"
    by (simp add: fst_load_knowledge_graph sample_world_files sample_ext_loads sample_values)
  from a kg_loader_keys_present [of sample_ext SOPHIA_KG_PATH sample_world]
  have 1: "has_key ''nodes'' kg_default \<and> has_key ''edges'' kg_default \<and> \<not> kg_load_failed kg_default"
    by (simp add: kg_default_def)
  from b kg_loader_keys_present [of sample_ext "''dummy_kg.json''" sample_world]
  have 2: "has_key ''nodes'' kg_value \<and> has_key ''edges'' kg_value \<and> \<not> kg_load_failed kg_value"
    by (simp add: kg_value_def)
  from a b 1 2 show ?thesis by simp
qed

section \<open>The log page\<close>

lemma digits_20: "digits NUM_LOG_ENTRIES_DISPLAY = ''20''"
  by (simp add: NUM_LOG_ENTRIES_DISPLAY_def)

lemma pd_DataFrame_records:
  "list_all isinstance_dict xs \<Longrightarrow>
   pd_DataFrame X (JList xs) =
     Inr \<lparr>columns = first_seen (concat (map (map fst \<circ> dict_items) xs)),
          rows = map dict_items xs\<rparr>"
  by (simp add: pd_DataFrame_def)

lemma log_page_eq:
  assumes "fst (load_system_event_log X SOPHIA_SYSTEM_LOG_PATH
                  (emit (Title ''System Event Log Viewer'') w)) = Inr es"
    and "es \<noteq> []" and "list_all isinstance_dict es"
  shows "system_event_log_viewer_page X w =
           (Inr (),
            future_enhancements
              (emit (Dataframe
                       \<lparr>columns = first_seen (concat (map (map fst \<circ> dict_items) es)),
                        rows = map dict_items (drop (length es - 20) es)\<rparr>)
                (emit (Subheader ''Last 20 Log Entries'')
                  (snd (load_system_event_log X SOPHIA_SYSTEM_LOG_PATH
                          (emit (Title ''System Event Log Viewer'') w))))))"
proof -
  have n: "0 < length es" using assms(2) by simp
  have t: "df_tail NUM_LOG_ENTRIES_DISPLAY
             \<lparr>columns = first_seen (concat (map (map fst \<circ> dict_items) es)),
              rows = map dict_items es\<rparr> =
           \<lparr>columns = first_seen (concat (map (map fst \<circ> dict_items) es)),
            rows = map dict_items (drop (length es - 20) es)\<rparr>"
    by (simp add: df_tail_def NUM_LOG_ENTRIES_DISPLAY_def drop_map)
  have s: "''Last '' @ digits NUM_LOG_ENTRIES_DISPLAY @ '' Log Entries'' = ''Last 20 Log Entries''"
    by (simp only: digits_20) simp
  show ?thesis
    unfolding system_event_log_viewer_page_def case_prod_beta assms(1) Let_def s
    using assms(2) n
    by (simp only: sum.case if_False if_True fst_conv snd_conv
          pd_DataFrame_records [OF assms(3)] t)
qed

text \<open>
  On a log of records that is not empty, the page shows one table: the last \<open>min 20 n\<close> of
  the \<open>n\<close> loaded entries, in the order of the file; for 25 entries, exactly the last 20.
\<close>

lemma log_page_shows_tail:
  assumes "fst (load_system_event_log X SOPHIA_SYSTEM_LOG_PATH
                  (emit (Title ''System Event Log Viewer'') w)) = Inr es"
    and "es \<noteq> []" and "list_all isinstance_dict es"
  shows "system_event_log_viewer_page X w =
           (Inr (),
            future_enhancements
              (emit (Dataframe
                       \<lparr>columns = first_seen (concat (map (map fst \<circ> dict_items) es)),
                        rows = map dict_items (drop (length es - 20) es)\<rparr>)
                (emit (Subheader ''Last 20 Log Entries'')
                  (snd (load_system_event_log X SOPHIA_SYSTEM_LOG_PATH
                          (emit (Title ''System Event Log Viewer'') w)))))) \<and>
         length (drop (length es - 20) es) = min 20 (length es) \<and>
         es = take (length es - 20) es @ drop (length es - 20) es \<and>
         (length es = 25 \<longrightarrow> drop (length es - 20) es = drop 5 es \<and> length (drop 5 es) = 20)"
proof -
  have l: "length (drop (length es - 20) es) = min 20 (length es)"
    by simp
  have a: "es = take (length es - 20) es @ drop (length es - 20) es"
    by simp
  have b: "length es = 25 \<longrightarrow> drop (length es - 20) es = drop 5 es \<and> length (drop 5 es) = 20"
    by simp
  from log_page_eq [OF assms] l a b show ?thesis
    by (intro conjI)
qed

lemma long_log_loaded:
  "fst (load_system_event_log seq_ext SOPHIA_SYSTEM_LOG_PATH
          (emit (Title ''System Event Log Viewer'') long_log_world)) =
     Inr (map seq_value [1 ..< 26])"
  by code_simp


lemma sample_log_loaded:
  "fst (load_system_event_log sample_ext SOPHIA_SYSTEM_LOG_PATH
          (emit (Title ''System Event Log Viewer'') sample_world)) =
     Inr [log_record ''2023-01-01T10:00:00Z'' ''INFO'' ''System started'',
          log_record ''2023-01-01T10:05:00Z'' ''WARNING'' ''Low disk space'',
          log_record ''2023-01-01T10:10:00Z'' ''ERROR'' ''Critical failure'']"
  by code_simp

lemma log_page_shows_tail_on_samples:
  "system_event_log_viewer_page seq_ext long_log_world =
     (Inr (),
      future_enhancements
        (emit (Dataframe
                 \<lparr>columns = [''seq''],
                  rows = map (\<lambda>i. [(''seq'', JInt (int i))]) [6 ..< 26]\<rparr>)
          (emit (Subheader ''Last 20 Log Entries'')
            (snd (load_system_event_log seq_ext SOPHIA_SYSTEM_LOG_PATH
                    (emit (Title ''System Event Log Viewer'') long_log_world)))))) \<and>
   length (map (\<lambda>i. [(''seq'', JInt (int i))]) [6 ..< 26]) = 20 \<and>
   system_event_log_viewer_page sample_ext sample_world =
     (Inr (),
      future_enhancements
        (emit (Dataframe
                 \<lparr>columns = [''timestamp'', ''event_type'', ''message''],
                  rows = map dict_items
                    [log_record ''2023-01-01T10:00:00Z'' ''INFO'' ''System started'',
                     log_record ''2023-01-01T10:05:00Z'' ''WARNING'' ''Low disk space'',
                     log_record ''2023-01-01T10:10:00Z'' ''ERROR'' ''Critical failure'']\<rparr>)
          (emit (Subheader ''Last 20 Log Entries'')
            (snd (load_system_event_log sample_ext SOPHIA_SYSTEM_LOG_PATH
                    (emit (Title ''System Event Log Viewer'') sample_world))))))"
proof -
  let ?es = "map seq_value [1 ..< 26]"
  have ne: "?es \<noteq> []" by code_simp
  have rec: "list_all isinstance_dict ?es" by code_simp
  have cols: "first_seen (concat (map (map fst \<circ> dict_items) ?es)) = [''seq'']"
    by code_simp
  have rws: "map dict_items (drop (length ?es - 20) ?es) =
               map (\<lambda>i. [(''seq'', JInt (int i))]) [6 ..< 26]"
    by code_simp
  have len: "length (map (\<lambda>i. [(''seq'', JInt (int i))]) [6 ..< 26]) = 20"
    by simp
  let ?fs = "[log_record ''2023-01-01T10:00:00Z'' ''INFO'' ''System started'',
              log_record ''2023-01-01T10:05:00Z'' ''WARNING'' ''Low disk space'',
              log_record ''2023-01-01T10:10:00Z'' ''ERROR'' ''Critical failure'']"
  have ne': "?fs \<noteq> []" by simp
  have rec': "list_all isinstance_dict ?fs" by (simp add: log_record_def)
  have cols': "first_seen (concat (map (map fst \<circ> dict_items) ?fs)) =
                 [''timestamp'', ''event_type'', ''message'']"
    by code_simp
  have rws': "drop (length ?fs - 20) ?fs = ?fs" by simp
  from log_page_shows_tail [OF long_log_loaded ne rec]
  have 1: "system_event_log_viewer_page seq_ext long_log_world =
     (Inr (),
      future_enhancements
        (emit (Dataframe
                 \<lparr>columns = [''seq''],
                  rows = map (\<lambda>i. [(''seq'', JInt (int i))]) [6 ..< 26]\<rparr>)
          (emit (Subheader ''Last 20 Log Entries'')
            (snd (load_system_event_log seq_ext SOPHIA_SYSTEM_LOG_PATH
                    (emit (Title ''System Event Log Viewer'') long_log_world))))))"
    by (simp only: cols rws)
  from log_page_shows_tail [OF sample_log_loaded ne' rec']
  have 2: "system_event_log_viewer_page sample_ext sample_world =
     (Inr (),
      future_enhancements
        (emit (Dataframe
                 \<lparr>columns = [''timestamp'', ''event_type'', ''message''],
                  rows = map dict_items ?fs\<rparr>)
          (emit (Subheader ''Last 20 Log Entries'')
            (snd (load_system_event_log sample_ext SOPHIA_SYSTEM_LOG_PATH
                    (emit (Title ''System Event Log Viewer'') sample_world))))))"
    by (simp only: cols' rws')
  from 1 len 2 show ?thesis by (intro conjI)
qed


text \<open>
  C5. The claim is that for every loaded log that is not empty the page shows the last
  \<open>min 20 n\<close> entries. The loader returns every line that decodes, record or not, and the
  page builds its frame from them outside any \<^verbatim>\<open>try\<close>, although its own comment (line 127)
  assumes a list of dicts and the ethics page guards the same constructor. On a log whose
  first entry is a record and whose second is the number 5, the constructor raises, the
  handler raises with it, and the page shows the title and the subheader but no entry, where
  the claim has it show both entries.
\<close>

theorem log_page_raises_on_mixed_entries:
  "fst (load_system_event_log mixed_ext SOPHIA_SYSTEM_LOG_PATH mixed_log_world) =
     Inr [JDict [(''seq'', JInt 1)], JInt 5] \<and>
   fst (system_event_log_viewer_page mixed_ext mixed_log_world) = Inl (OtherException keys_error) \<and>
   shown (snd (system_event_log_viewer_page mixed_ext mixed_log_world)) =
     [Title ''System Event Log Viewer'', Subheader ''Last 20 Log Entries'']"
  by code_simp

section \<open>The ethics page: the summary\<close>

lemma ethics_loaded_dict:
  assumes "fst (load_ethics_db X p w) = Inr d"
  shows "isinstance_dict d \<and> has_key ''ethical_events'' d"
  using assms
  by (auto simp: fst_load_ethics_db ethics_default_def has_key_def
           split: disk_file.splits decoded.splits if_splits)

lemma ethical_trends_page_eq:
  assumes "fst (load_ethics_db X SOPHIA_ETHICS_DB_PATH
                  (emit (Title ''Ethical Trends Analysis'') w)) = Inr d"
    and "map_of (dict_items d) ''ethical_events'' = Some events" and "truthy events"
  shows "ethical_trends_page X w =
     (case trend_summary_section X
             (case map_of (dict_items d) ''trend_analysis'' of None \<Rightarrow> JDict [] | Some t \<Rightarrow> t)
             (snd (load_ethics_db X SOPHIA_ETHICS_DB_PATH
                     (emit (Title ''Ethical Trends Analysis'') w))) of
        (Inl e, w2) \<Rightarrow> (Inl e, w2)
      | (Inr u, w2) \<Rightarrow> (Inr (), chart_section X events w2))"
proof -
  from ethics_loaded_dict [OF assms(1)] obtain kvs where kvs: "d = JDict kvs"
    by (cases d) simp_all
  have t: "truthy d"
    using assms(2) kvs by auto
  have n: "no_ethical_events d = Inr False"
    using assms(2,3) kvs t by (simp add: no_ethical_events_def falsy_def)
  show ?thesis
    unfolding ethical_trends_page_def case_prod_beta assms(1)
    using assms(2,3) kvs n
    by (simp add: falsy_def split: sum.splits)
qed

text \<open>
  C6, as the claim states it, fails: on the file
  \<open>{"ethical_events": [{"timestamp":"2023-01-01T12:00:00Z","final_score":0.8}]}\<close>, which has
  no \<open>trend_analysis\<close>, the page shows no metric at all. The summary defaults to the empty
  mapping, the test of line 32 is false on it, and the page shows the notice of line 40.
\<close>

theorem no_metrics_without_trend_analysis:
  "fst (load_ethics_db sample_ext SOPHIA_ETHICS_DB_PATH sample_world) = Inr ethics_value \<and>
   fst (ethical_trends_page sample_ext sample_world) = Inr () \<and>
   shown (snd (ethical_trends_page sample_ext sample_world)) =
     [Title ''Ethical Trends Analysis'',
      Info ''No trend analysis summary available in the data.'',
      Subheader ''Ethical Score Over Time'',
      LineChart [''final_score'']
        [(Some 1672574400000000000, [Some (JFloat (Finite 3602879701896397 (- 52)))])]]"
  by code_simp

text \<open>
  C6, amended. When the loaded ethics database has events and no \<open>trend_analysis\<close>, the page
  shows the notice \<open>No trend analysis summary available in the data.\<close> in place of the two
  headline metrics and goes on to the chart, without raising. The defaults \<open>N/A\<close> and \<open>0\<close>
  (printed with two decimals) are what the metrics show when \<open>trend_analysis\<close> is a mapping
  that is not empty and lacks the two keys.
\<close>

theorem trend_summary_absent:
  assumes "fst (load_ethics_db X SOPHIA_ETHICS_DB_PATH
                  (emit (Title ''Ethical Trends Analysis'') w)) = Inr d"
    and "map_of (dict_items d) ''ethical_events'' = Some events" and "truthy events"
  shows "(lacks_key ''trend_analysis'' d \<longrightarrow>
            ethical_trends_page X w =
              (Inr (),
               chart_section X events
                 (emit (Info ''No trend analysis summary available in the data.'')
                    (snd (load_ethics_db X SOPHIA_ETHICS_DB_PATH
                            (emit (Title ''Ethical Trends Analysis'') w)))))) \<and>
         (\<forall>kvs s. map_of (dict_items d) ''trend_analysis'' = Some (JDict kvs) \<and> kvs \<noteq> [] \<and>
            map_of kvs ''current_trend_direction'' = None \<and>
            map_of kvs ''short_term_avg_score_t_weighted'' = None \<and>
            format_2f X (JInt 0) = Inr s \<longrightarrow>
            ethical_trends_page X w =
              (Inr (),
               chart_section X events
                 (emit (Metric ''Short-term Avg Score (Time-Weighted)'' (JStr s))
                    (emit (Metric ''Current Trend Direction'' (JStr ''N/A''))
                       (emit (Subheader ''Trend Analysis Summary'')
                          (snd (load_ethics_db X SOPHIA_ETHICS_DB_PATH
                                  (emit (Title ''Ethical Trends Analysis'') w))))))))"
proof (intro conjI allI impI)
  assume "lacks_key ''trend_analysis'' d"
  then have "map_of (dict_items d) ''trend_analysis'' = None"
    by (simp add: lacks_key_def)
  then show "ethical_trends_page X w =
              (Inr (),
               chart_section X events
                 (emit (Info ''No trend analysis summary available in the data.'')
                    (snd (load_ethics_db X SOPHIA_ETHICS_DB_PATH
                            (emit (Title ''Ethical Trends Analysis'') w)))))"
    by (simp add: ethical_trends_page_eq [OF assms] trend_summary_section_def)
next
  fix kvs s
  assume h: "map_of (dict_items d) ''trend_analysis'' = Some (JDict kvs) \<and> kvs \<noteq> [] \<and>
            map_of kvs ''current_trend_direction'' = None \<and>
            map_of kvs ''short_term_avg_score_t_weighted'' = None \<and>
            format_2f X (JInt 0) = Inr s"
  then show "ethical_trends_page X w =
              (Inr (),
               chart_section X events
                 (emit (Metric ''Short-term Avg Score (Time-Weighted)'' (JStr s))
                    (emit (Metric ''Current Trend Direction'' (JStr ''N/A''))
                       (emit (Subheader ''Trend Analysis Summary'')
                          (snd (load_ethics_db X SOPHIA_ETHICS_DB_PATH
                                  (emit (Title ''Ethical Trends Analysis'') w)))))))"
    by (simp add: ethical_trends_page_eq [OF assms] trend_summary_section_def Let_def)
qed

lemma sample_ethics_loaded:
  "fst (load_ethics_db sample_ext SOPHIA_ETHICS_DB_PATH
          (emit (Title ''Ethical Trends Analysis'') sample_world)) = Inr ethics_value"
  "fst (load_ethics_db sample_ext SOPHIA_ETHICS_DB_PATH
          (emit (Title ''Ethical Trends Analysis'') partial_trend_world)) = Inr partial_trend_value"
  by code_simp+

theorem trend_summary_absent_witness:
  "ethical_trends_page sample_ext sample_world =
     (Inr (),
      chart_section sample_ext
        (JList [JDict [(''timestamp'', JStr ''2023-01-01T12:00:00Z''),
                       (''final_score'', JFloat (Finite 3602879701896397 (- 52)))]])
        (emit (Info ''No trend analysis summary available in the data.'')
           (snd (load_ethics_db sample_ext SOPHIA_ETHICS_DB_PATH
                   (emit (Title ''Ethical Trends Analysis'') sample_world))))) \<and>
   ethical_trends_page sample_ext partial_trend_world =
     (Inr (),
      chart_section sample_ext
        (JList [JDict [(''timestamp'', JStr ''2023-01-01T12:00:00Z''),
                       (''final_score'', JFloat (Finite 3602879701896397 (- 52)))]])
        (emit (Metric ''Short-term Avg Score (Time-Weighted)'' (JStr ''0.00''))
           (emit (Metric ''Current Trend Direction'' (JStr ''N/A''))
              (emit (Subheader ''Trend Analysis Summary'')
                 (snd (load_ethics_db sample_ext SOPHIA_ETHICS_DB_PATH
                         (emit (Title ''Ethical Trends Analysis'') partial_trend_world)))))))"
proof -
  let ?events = "JList [JDict [(''timestamp'', JStr ''2023-01-01T12:00:00Z''),
                       (''final_score'', JFloat (Finite 3602879701896397 (- 52)))]]"
  have e1: "map_of (dict_items ethics_value) ''ethical_events'' = Some ?events"
    by (simp add: ethics_value_def)
  have e2: "map_of (dict_items partial_trend_value) ''ethical_events'' = Some ?events"
    by (simp add: partial_trend_value_def)
  have t: "truthy ?events" by simp
  have l: "lacks_key ''trend_analysis'' ethics_value"
    by (simp add: lacks_key_def ethics_value_def)
  have h: "map_of (dict_items partial_trend_value) ''trend_analysis'' =
             Some (JDict [(''long_term_trend'', JStr ''stable'')]) \<and>
           [(''long_term_trend'', JStr ''stable'')] \<noteq> [] \<and>
           map_of [(''long_term_trend'', JStr ''stable'')] ''current_trend_direction'' = None \<and>
           map_of [(''long_term_trend'', JStr ''stable'')] ''short_term_avg_score_t_weighted'' = None \<and>
           format_2f sample_ext (JInt 0) = Inr ''0.00''"
    by (simp add: partial_trend_value_def sample_ext_def sample_format_2f_def)
  from trend_summary_absent [OF sample_ethics_loaded(1) e1 t, THEN conjunct1, rule_format, OF l]
    trend_summary_absent [OF sample_ethics_loaded(2) e2 t, THEN conjunct2, rule_format, OF h]
  show ?thesis
    by (intro conjI)
qed

section \<open>The ethics page: the chart\<close>

text \<open>
  The chart is drawn by the \<^verbatim>\<open>try\<close> block of the page, \<open>chart_section\<close>, which the page
  reaches with the loaded events (\<open>ethical_trends_page_eq\<close>).
\<close>

lemma stamp_le_refl: "stamp_le a a"
  by (cases a) simp_all

lemma stamp_le_total: "stamp_le a b \<or> stamp_le b a"
  by (cases a; cases b) auto

lemma stamp_le_trans: "stamp_le a b \<Longrightarrow> stamp_le b c \<Longrightarrow> stamp_le a c"
  by (cases a; cases b; cases c) auto

lemma mset_insert_row: "mset (insert_row x ys) = add_mset x (mset ys)"
  by (induction ys) auto

lemma mset_sort_values: "mset (sort_values xs) = mset xs"
  by (induction xs) (auto simp: sort_values_def mset_insert_row)

lemma set_insert_row: "set (insert_row x ys) = insert x (set ys)"
  using mset_insert_row [of x ys] by (metis set_mset_add_mset_insert set_mset_mset)

lemma sorted_insert_row:
  "sorted_wrt (\<lambda>a b. stamp_le (fst a) (fst b)) ys \<Longrightarrow>
   sorted_wrt (\<lambda>a b. stamp_le (fst a) (fst b)) (insert_row x ys)"
proof (induction ys)
  case Nil
  then show ?case by simp
next
  case (Cons y ys)
  show ?case
  proof (cases "stamp_le (fst x) (fst y)")
    case True
    with Cons.prems show ?thesis
      by (auto intro: stamp_le_trans)
  next
    case False
    then have "stamp_le (fst y) (fst x)"
      using stamp_le_total by blast
    with False Cons show ?thesis
      by (auto simp: set_insert_row)
  qed
qed

lemma sorted_sort_values: "sorted_wrt (\<lambda>a b. stamp_le (fst a) (fst b)) (sort_values xs)"
  by (induction xs) (auto simp: sort_values_def sorted_insert_row)

lemma set_first_seen [simp]: "set (first_seen ks) = set ks"
  by (simp add: first_seen_def)

lemma has_key_items: "has_key k r = (k \<in> fst ` set (dict_items r))"
  by (simp add: has_key_def map_of_eq_None_iff)

lemma lacks_key_items: "lacks_key k r = (k \<notin> fst ` set (dict_items r))"
  by (simp add: lacks_key_def map_of_eq_None_iff)

lemma column_present:
  "k \<in> set (columns \<lparr>columns = first_seen (concat (map (map fst \<circ> dict_items) xs)),
                      rows = map dict_items xs\<rparr>) = (\<not> list_all (lacks_key k) xs)"
  by (auto simp: list_all_iff lacks_key_items)


lemma chart_section_records:
  assumes "list_all isinstance_dict xs"
  shows "chart_section X (JList xs) w =
     (if list_all (lacks_key ''timestamp'') xs
      then emit (Error ''Error: 'timestamp' column missing in ethical events data.'') w
      else if list_all (lacks_key ''final_score'') xs
      then emit (Error ''Error: 'final_score' column missing in ethical events data.'') w
      else
        (case to_datetime X (map (\<lambda>r. map_of (dict_items r) ''timestamp'') xs) of
           Inl msg \<Rightarrow>
             emit (Error (''An error occurred while preparing data for the chart: '' @ msg)) w
         | Inr stamps \<Rightarrow>
             if length stamps \<noteq> length xs
             then emit (Error (''An error occurred while preparing data for the chart: '' @
                    ''Length of values does not match length of index'')) w
             else emit (LineChart [''final_score'']
                    (map (\<lambda>(t, r). (t, [map_of r ''final_score'']))
                       (sort_values (zip stamps (map dict_items xs)))))
                    (emit (Subheader ''Ethical Score Over Time'') w)))"
proof -
  have c: "column ''timestamp''
             \<lparr>columns = first_seen (concat (map (map fst \<circ> dict_items) xs)),
              rows = map dict_items xs\<rparr> =
           map (\<lambda>r. map_of (dict_items r) ''timestamp'') xs"
    by (simp add: column_def comp_def)
  show ?thesis
    unfolding chart_section_def pd_DataFrame_records [OF assms] sum.case column_present c
    by (simp add: Let_def split: sum.splits)
qed

text \<open>
  C8, as the claim states it, fails: an event list that is not empty and whose one record
  has both \<open>timestamp\<close> and \<open>final_score\<close> gets no chart when the timestamp is no date. The
  conversion raises, and the handler of line 73 shows its message.
\<close>

theorem no_chart_for_undated_events:
  "fst (load_ethics_db sample_ext SOPHIA_ETHICS_DB_PATH undated_world) = Inr undated_value \<and>
   undated_value =
     JDict [(''ethical_events'',
       JList [JDict [(''timestamp'', JStr ''not a date''), (''final_score'', JInt 1)]])] \<and>
   fst (ethical_trends_page sample_ext undated_world) = Inr () \<and>
   shown (snd (ethical_trends_page sample_ext undated_world)) =
     [Title ''Ethical Trends Analysis'',
      Info ''No trend analysis summary available in the data.'',
      Error (''An error occurred while preparing data for the chart: '' @
             ''Unknown datetime string format, unable to parse'')]"
  by code_simp

text \<open>
  C8, amended. For a list of event records that is not empty: when every record has both
  \<open>timestamp\<close> and \<open>final_score\<close> and pandas converts the timestamp column, the chart holds
  every event once, in ascending order of the converted timestamps, with \<open>final_score\<close> as
  its only series; when the conversion raises, no chart is drawn and the error of the
  handler is shown with the exception's message. When no record has \<open>timestamp\<close>, the error
  that names \<open>timestamp\<close> is shown and no chart is drawn; when some record has \<open>timestamp\<close>
  and none has \<open>final_score\<close>, the error that names \<open>final_score\<close>.
\<close>

theorem chart_section_events:
  assumes "xs \<noteq> []" and "list_all isinstance_dict xs"
  shows
    "(list_all (\<lambda>r. has_key ''timestamp'' r \<and> has_key ''final_score'' r) xs \<and>
      to_datetime X (map (\<lambda>r. map_of (dict_items r) ''timestamp'') xs) = Inr stamps \<and>
      length stamps = length xs \<longrightarrow>
      (\<exists>chart.
         chart_section X (JList xs) w =
           emit (LineChart [''final_score''] chart)
             (emit (Subheader ''Ethical Score Over Time'') w) \<and>
         sorted_wrt stamp_le (map fst chart) \<and>
         mset chart =
           mset (zip stamps (map (\<lambda>r. [map_of (dict_items r) ''final_score'']) xs)))) \<and>
     (\<forall>msg.
        list_all (\<lambda>r. has_key ''timestamp'' r \<and> has_key ''final_score'' r) xs \<and>
        to_datetime X (map (\<lambda>r. map_of (dict_items r) ''timestamp'') xs) = Inl msg \<longrightarrow>
        chart_section X (JList xs) w =
          emit (Error (''An error occurred while preparing data for the chart: '' @ msg)) w) \<and>
     (list_all (lacks_key ''timestamp'') xs \<longrightarrow>
        chart_section X (JList xs) w =
          emit (Error ''Error: 'timestamp' column missing in ethical events data.'') w) \<and>
     (\<not> list_all (lacks_key ''timestamp'') xs \<and> list_all (lacks_key ''final_score'') xs \<longrightarrow>
        chart_section X (JList xs) w =
          emit (Error ''Error: 'final_score' column missing in ethical events data.'') w)"
proof -
  have both: "\<not> list_all (lacks_key ''timestamp'') xs \<and> \<not> list_all (lacks_key ''final_score'') xs"
    if "list_all (\<lambda>r. has_key ''timestamp'' r \<and> has_key ''final_score'' r) xs"
    using that assms(1)
    by (cases xs) (auto simp: has_key_def lacks_key_def)
  have 1: "\<exists>chart.
         chart_section X (JList xs) w =
           emit (LineChart [''final_score''] chart)
             (emit (Subheader ''Ethical Score Over Time'') w) \<and>
         sorted_wrt stamp_le (map fst chart) \<and>
         mset chart =
           mset (zip stamps (map (\<lambda>r. [map_of (dict_items r) ''final_score'']) xs))"
    if h: "list_all (\<lambda>r. has_key ''timestamp'' r \<and> has_key ''final_score'' r) xs"
      and t: "to_datetime X (map (\<lambda>r. map_of (dict_items r) ''timestamp'') xs) = Inr stamps"
      and l: "length stamps = length xs"
  proof -
    let ?f = "\<lambda>(t, r). (t, [map_of r ''final_score''])"
    let ?chart = "map ?f (sort_values (zip stamps (map dict_items xs)))"
    have e: "chart_section X (JList xs) w =
           emit (LineChart [''final_score''] ?chart)
             (emit (Subheader ''Ethical Score Over Time'') w)"
      using both [OF h] t l by (simp add: chart_section_records [OF assms(2)])
    have mf: "map fst ?chart = map fst (sort_values (zip stamps (map dict_items xs)))"
      by (simp add: case_prod_beta)
    have s: "sorted_wrt stamp_le (map fst ?chart)"
      unfolding mf sorted_wrt_map by (rule sorted_sort_values)
    have "mset ?chart = image_mset ?f (mset (sort_values (zip stamps (map dict_items xs))))"
      by (rule mset_map)
    also have "\<dots> = image_mset ?f (mset (zip stamps (map dict_items xs)))"
      by (simp only: mset_sort_values)
    also have "\<dots> = mset (map ?f (zip stamps (map dict_items xs)))"
      by (rule mset_map [symmetric])
    also have "map ?f (zip stamps (map dict_items xs)) =
                 zip stamps (map (\<lambda>r. [map_of (dict_items r) ''final_score'']) xs)"
      by (simp add: zip_map2 case_prod_beta)
    finally have m: "mset ?chart =
        mset (zip stamps (map (\<lambda>r. [map_of (dict_items r) ''final_score'']) xs))" .
    from e s m show ?thesis by blast
  qed
  have 2: "chart_section X (JList xs) w =
          emit (Error (''An error occurred while preparing data for the chart: '' @ msg)) w"
    if "list_all (\<lambda>r. has_key ''timestamp'' r \<and> has_key ''final_score'' r) xs"
      and "to_datetime X (map (\<lambda>r. map_of (dict_items r) ''timestamp'') xs) = Inl msg"
    for msg
    using both [OF that(1)] that(2) by (simp add: chart_section_records [OF assms(2)])
  have 3: "chart_section X (JList xs) w =
          emit (Error ''Error: 'timestamp' column missing in ethical events data.'') w"
    if "list_all (lacks_key ''timestamp'') xs"
    using that by (simp add: chart_section_records [OF assms(2)])
  have 4: "chart_section X (JList xs) w =
          emit (Error ''Error: 'final_score' column missing in ethical events data.'') w"
    if "\<not> list_all (lacks_key ''timestamp'') xs" "list_all (lacks_key ''final_score'') xs"
    using that by (simp add: chart_section_records [OF assms(2)])
  from 1 2 3 4 show ?thesis by blast
qed

lemma unsorted_events_facts:
  "unsorted_events \<noteq> []"
  "list_all isinstance_dict unsorted_events"
  "list_all (\<lambda>r. has_key ''timestamp'' r \<and> has_key ''final_score'' r) unsorted_events"
  "to_datetime sample_ext (map (\<lambda>r. map_of (dict_items r) ''timestamp'') unsorted_events) =
     Inr [Some 1672574700000000000, Some 1672574400000000000]"
  "map (\<lambda>r. [map_of (dict_items r) ''final_score'']) unsorted_events =
     [[Some (JFloat (Finite 3152519739159347 (- 52)))],
      [Some (JFloat (Finite 3602879701896397 (- 52)))]]"
  by code_simp+

theorem chart_section_events_witness:
  "(\<exists>chart.
      chart_section sample_ext (JList unsorted_events) sample_world =
        emit (LineChart [''final_score''] chart)
          (emit (Subheader ''Ethical Score Over Time'') sample_world) \<and>
      sorted_wrt stamp_le (map fst chart) \<and>
      mset chart =
        mset [(Some 1672574700000000000, [Some (JFloat (Finite 3152519739159347 (- 52)))]),
              (Some 1672574400000000000, [Some (JFloat (Finite 3602879701896397 (- 52)))])]) \<and>
   chart_section sample_ext
       (JList [JDict [(''timestamp'', JStr ''not a date''), (''final_score'', JInt 1)]])
       sample_world =
     emit (Error (''An error occurred while preparing data for the chart: '' @
                  ''Unknown datetime string format, unable to parse'')) sample_world \<and>
   chart_section sample_ext (JList [JDict [(''final_score'', JInt 1)]]) sample_world =
     emit (Error ''Error: 'timestamp' column missing in ethical events data.'') sample_world \<and>
   chart_section sample_ext (JList [JDict [(''timestamp'', JStr ''2023-01-01T12:00:00Z'')]])
       sample_world =
     emit (Error ''Error: 'final_score' column missing in ethical events data.'') sample_world"
proof -
  have h1: "list_all (\<lambda>r. has_key ''timestamp'' r \<and> has_key ''final_score'' r) unsorted_events \<and>
      to_datetime sample_ext (map (\<lambda>r. map_of (dict_items r) ''timestamp'') unsorted_events) =
        Inr [Some 1672574700000000000, Some 1672574400000000000] \<and>
      length [Some 1672574700000000000, Some (1672574400000000000::int)] = length unsorted_events"
    using unsorted_events_facts(3,4) by (simp add: unsorted_events_def)
  have 1: "\<exists>chart.
      chart_section sample_ext (JList unsorted_events) sample_world =
        emit (LineChart [''final_score''] chart)
          (emit (Subheader ''Ethical Score Over Time'') sample_world) \<and>
      sorted_wrt stamp_le (map fst chart) \<and>
      mset chart =
        mset [(Some 1672574700000000000, [Some (JFloat (Finite 3152519739159347 (- 52)))]),
              (Some 1672574400000000000, [Some (JFloat (Finite 3602879701896397 (- 52)))])]"
    using chart_section_events [OF unsorted_events_facts(1,2), of sample_ext _ sample_world,
        THEN conjunct1, rule_format, OF h1]
    by (simp add: unsorted_events_facts(5))
  let ?u = "[JDict [(''timestamp'', JStr ''not a date''), (''final_score'', JInt 1)]]"
  have u: "?u \<noteq> []" "list_all isinstance_dict ?u" by simp_all
  have h2: "list_all (\<lambda>r. has_key ''timestamp'' r \<and> has_key ''final_score'' r) ?u \<and>
      to_datetime sample_ext (map (\<lambda>r. map_of (dict_items r) ''timestamp'') ?u) =
        Inl ''Unknown datetime string format, unable to parse''"
    by (simp add: has_key_def sample_ext_def sample_to_datetime_def sample_stamps_def)
  note 2 = chart_section_events [OF u, of sample_ext _ sample_world,
        THEN conjunct2, THEN conjunct1, rule_format, OF h2]
  let ?t = "[JDict [(''final_score'', JInt 1)]]"
  have t: "?t \<noteq> []" "list_all isinstance_dict ?t" by simp_all
  have h3: "list_all (lacks_key ''timestamp'') ?t"
    by (simp add: lacks_key_def)
  note 3 = chart_section_events [OF t, of sample_ext _ sample_world,
        THEN conjunct2, THEN conjunct2, THEN conjunct1, rule_format, OF h3]
  let ?f = "[JDict [(''timestamp'', JStr ''2023-01-01T12:00:00Z'')]]"
  have f: "?f \<noteq> []" "list_all isinstance_dict ?f" by simp_all
  have h4: "\<not> list_all (lacks_key ''timestamp'') ?f \<and> list_all (lacks_key ''final_score'') ?f"
    by (simp add: lacks_key_def)
  note 4 = chart_section_events [OF f, of sample_ext _ sample_world,
        THEN conjunct2, THEN conjunct2, THEN conjunct2, rule_format, OF h4]
  from 1 2 3 4 show ?thesis by (intro conjI)
qed

end
